theory Spec2Isabelle
  imports Main "HOL-Library.Word"
begin

section \<open>Data model of the update engine (pkg/engine)\<close>

text \<open>
  Go's \<^verbatim>\<open>int\<close> on a 64-bit target: additions wrap around, comparisons are signed.
\<close>

type_synonym go_int = "64 word"

type_synonym URN = string

text \<open>A Go \<^verbatim>\<open>error\<close> value; the nil error is \<open>None\<close> of \<open>error option\<close>.\<close>

datatype error = Error string

text \<open>
  Modelled from the spec: \<^verbatim>\<open>deploy.StepOp\<close>, declared outside this file. The spec
  lists the operation kinds Same, Create, Update, Delete, Replace, CreateReplacement,
  DeleteReplaced and leaves the list open; \<open>OpOther\<close> stands for any further kind.
\<close>

datatype StepOp =
    OpSame
  | OpCreate
  | OpUpdate
  | OpDelete
  | OpReplace
  | OpCreateReplacement
  | OpDeleteReplaced
  | OpOther string

text \<open>
  Modelled from the spec: \<^verbatim>\<open>resource.Status\<close>, declared outside this file; the
  provider's status is one of OK, PartialFailure, Unknown.
\<close>

datatype Status = StatusOK | StatusPartialFailure | StatusUnknown

text \<open>
  \<^verbatim>\<open>resource.State\<close>, reduced to the two fields the engine reads here.
\<close>

record State =
  Custom :: bool
  InitErrors :: "string list"

text \<open>
  \<^verbatim>\<open>deploy.Step\<close> is an interface; a step is the record of what its methods return.
  \<open>Old\<close> is a pointer that is nil for steps without a prior state (\<open>None\<close>).
\<close>

record Step =
  URN :: URN
  Op :: StepOp
  Old :: "State option"
  Res :: State
  Logical :: bool

text \<open>\<^verbatim>\<open>type ResourceChanges map[deploy.StepOp]int\<close>\<close>

type_synonym ResourceChanges = "StepOp \<rightharpoonup> go_int"

subsection \<open>ResourceChanges.HasChanges\<close>

text \<open>
  \<^verbatim>\<open>for op, count := range changes { if op != deploy.OpSame { c += count } }\<close>

  Go visits every key of the map once, in an order it does not specify. The order is
  the first argument: the list of keys as \<^verbatim>\<open>range\<close> yields them. A key that is
  not in the map is never yielded; the loop skips it.
\<close>

fun HasChanges_range :: "StepOp list \<Rightarrow> ResourceChanges \<Rightarrow> go_int \<Rightarrow> go_int" where
  "HasChanges_range [] changes c = c"
| "HasChanges_range (op # ks) changes c =
     (case changes op of
        None \<Rightarrow> HasChanges_range ks changes c
      | Some count \<Rightarrow> HasChanges_range ks changes (if op \<noteq> OpSame then c + count else c))"

definition HasChanges :: "StepOp list \<Rightarrow> ResourceChanges \<Rightarrow> bool" where
  "HasChanges ks changes = (0 <s HasChanges_range ks changes 0)"

text \<open>
  The claim's words: the sum of the counts over all operation kinds other than Same,
  taken in the type of the counts.
\<close>

definition count_of :: "ResourceChanges \<Rightarrow> StepOp \<Rightarrow> go_int" where
  "count_of changes op = (case changes op of None \<Rightarrow> 0 | Some count \<Rightarrow> count)"

definition non_same_sum :: "ResourceChanges \<Rightarrow> go_int" where
  "non_same_sum changes = (\<Sum>op \<in> dom changes - {OpSame}. count_of changes op)"

subsection \<open>Outcomes and observable calls\<close>

text \<open>
  A Go call either returns or panics. A panic unwinds the stack; what was written and
  emitted before it stays written and emitted.
\<close>

datatype 'a result = Panicked string | Returned 'a

text \<open>
  \<^verbatim>\<open>UpdateOptions\<close>; \<^verbatim>\<open>planOptions\<close> embeds it and adds the event emitter and the
  diagnostics sink, which are modelled by the list of calls made on them.
\<close>

record UpdateOptions =
  Analyzers :: "string list"
  Parallel :: go_int
  Debug :: bool
  reportDefaultProviderSteps :: bool

text \<open>
  Every call the engine makes on a collaborator that is not part of this file: the event
  emitter (\<^verbatim>\<open>Opts.Events\<close>, \<^verbatim>\<open>ctx.Events\<close>), the diagnostics sink (\<^verbatim>\<open>Opts.Diag\<close>),
  the snapshot manager and its mutations, and the deferred clean-up calls. Each function
  below returns the calls it made, in program order. The duration carried by the
  update-summary event and the configuration carried by the prelude event are left out.
\<close>

datatype call =
    resourcePreEvent Step bool bool
  | resourceOutputsEvent Step bool bool
  | resourceOperationFailedEvent Step Status go_int bool
  | preludeEvent bool
  | updateSummaryEvent bool ResourceChanges
  | cancelEvent
  | Warningf URN string
  | Errorf URN error
  | BeginMutationCall Step
  | EndCall Step bool
  | RegisterResourceOutputsCall Step
  | planContextClose
  | planResultIgnoreClose
  | ChdirDone

type_synonym 'a effect = "'a result \<times> call list"

text \<open>
  \<^verbatim>\<open>SnapshotMutation\<close>: the handle returned by BeginMutation; \<open>End\<close> is what its
  \<^verbatim>\<open>End(step, keep)\<close> method returns.
\<close>

record SnapshotMutation =
  End :: "Step \<Rightarrow> bool \<Rightarrow> error option"

text \<open>
  The engine \<^verbatim>\<open>Context\<close> as the callbacks see it at the moment of one call:
  \<open>TerminateErr\<close> is what \<^verbatim>\<open>Context.Cancel.TerminateErr()\<close> returns then, the other
  two fields are what the methods of \<^verbatim>\<open>Context.SnapshotManager\<close> return.
\<close>

record Context =
  TerminateErr :: "error option"
  BeginMutation :: "Step \<Rightarrow> SnapshotMutation option \<times> error option"
  RegisterResourceOutputs :: "Step \<Rightarrow> error option"

text \<open>
  Package-level names used by the callbacks and declared outside this file: the
  predicate \<^verbatim>\<open>isDefaultProviderStep\<close> and the colour markers \<^verbatim>\<open>colors.SpecImportant\<close>
  and \<^verbatim>\<open>colors.Reset\<close>. They are parameters of the model.
\<close>

record externals =
  isDefaultProviderStep :: "Step \<Rightarrow> bool"
  SpecImportant :: string
  Reset :: string

datatype UpdateInfo = UpdateInfo string

text \<open>
  \<^verbatim>\<open>updateActions\<close>. The \<^verbatim>\<open>Context\<close> pointer is passed to each callback instead of
  being stored (what it points to changes while the update runs), \<^verbatim>\<open>MapLock\<close> has
  no sequential content, and the field \<^verbatim>\<open>Update\<close> is \<open>Update_ua\<close>.
\<close>

record updateActions =
  Steps :: go_int
  Ops :: "StepOp \<rightharpoonup> go_int"
  Seen :: "URN \<rightharpoonup> Step"
  MaybeCorrupt :: bool
  Update_ua :: UpdateInfo
  Opts :: UpdateOptions

definition newUpdateActions :: "UpdateInfo \<Rightarrow> UpdateOptions \<Rightarrow> updateActions" where
  "newUpdateActions u opts =
     \<lparr>Steps = 0, Ops = Map.empty, Seen = Map.empty, MaybeCorrupt = False,
      Update_ua = u, Opts = opts\<rparr>"

subsection \<open>updateActions.OnResourceStepPre\<close>

text \<open>\<^verbatim>\<open>%d\<close> of a positive index.\<close>

fun decimal :: "nat \<Rightarrow> string" where
  "decimal n =
     (if n < 10 then [char_of (48 + n)]
      else decimal (n div 10) @ [char_of (48 + n mod 10)])"

definition indent :: string where
  "indent = ''         ''"

text \<open>The loop over \<^verbatim>\<open>step.Old().InitErrors\<close>; \<open>i\<close> is the index of the first error.\<close>

fun warning_problems :: "externals \<Rightarrow> nat \<Rightarrow> string list \<Rightarrow> string" where
  "warning_problems x i [] = []"
| "warning_problems x i (err # errs) =
     SpecImportant x @ indent @ ''  - Problem #'' @ decimal (i + 1) @ Reset x @ '' '' @ err
       @ ''\<newline>'' @ warning_problems x (i + 1) errs"

definition warning_text :: "externals \<Rightarrow> string list \<Rightarrow> string" where
  "warning_text x errs =
     ''This resource failed to initialize in a previous deployment. It is recommended\<newline>''
       @ indent @ ''to update it to fix these issues:\<newline>''
       @ warning_problems x 0 errs"

definition reportStep_of :: "externals \<Rightarrow> updateActions \<Rightarrow> Step \<Rightarrow> bool" where
  "reportStep_of x acts step \<longleftrightarrow>
     reportDefaultProviderSteps (Opts acts) \<or> \<not> isDefaultProviderStep x step"

text \<open>
  Lines 306-324: the reporting block. \<^verbatim>\<open>step.Old()\<close> is dereferenced only when the
  step is a Same step; a nil pointer there is a panic.
\<close>

definition OnResourceStepPre_report :: "externals \<Rightarrow> Step \<Rightarrow> updateActions \<Rightarrow> unit effect" where
  "OnResourceStepPre_report x step acts =
     (if reportStep_of x acts step then
        (if Op step = OpSame then
           (case Old step of
              None \<Rightarrow>
                (Panicked ''nil pointer dereference'',
                 [resourcePreEvent step False (Debug (Opts acts))])
            | Some old \<Rightarrow>
                if length (InitErrors old) > 0 then
                  (Returned (),
                   [resourcePreEvent step False (Debug (Opts acts)),
                    Warningf (URN step) (warning_text x (InitErrors old))])
                else (Returned (), [resourcePreEvent step False (Debug (Opts acts))]))
         else (Returned (), [resourcePreEvent step False (Debug (Opts acts))]))
      else (Returned (), []))"

definition OnResourceStepPre ::
  "externals \<Rightarrow> Context \<Rightarrow> Step \<Rightarrow> updateActions \<Rightarrow>
     (SnapshotMutation option \<times> error option) result \<times> updateActions \<times> call list" where
  "OnResourceStepPre x context step acts =
     (let acts1 = acts\<lparr>Seen := (Seen acts)(URN step \<mapsto> step)\<rparr> in
      case OnResourceStepPre_report x step acts1 of
        (Panicked m, cs) \<Rightarrow> (Panicked m, acts1, cs)
      | (Returned _, cs) \<Rightarrow>
          (Returned (BeginMutation context step), acts1, cs @ [BeginMutationCall step]))"

subsection \<open>updateActions.OnResourceStepPost\<close>

text \<open>
  Modelled from the spec: \<^verbatim>\<open>assertSeen\<close>, declared outside this file: a fatal
  assertion that the step's URN is present in the seen-step registry.
\<close>

definition assertSeen :: "(URN \<rightharpoonup> Step) \<Rightarrow> Step \<Rightarrow> unit result" where
  "assertSeen seen step =
     (case seen (URN step) of
        None \<Rightarrow> Panicked ''URN had not been marked as seen''
      | Some _ \<Rightarrow> Returned ())"

text \<open>
  Lines 342-376: reporting the result of the step. \<^verbatim>\<open>acts.Ops[stepop]++\<close> reads a
  missing key as 0.
\<close>

definition OnResourceStepPost_report ::
  "externals \<Rightarrow> Step \<Rightarrow> Status \<Rightarrow> error option \<Rightarrow> updateActions \<Rightarrow> updateActions \<times> call list" where
  "OnResourceStepPost_report x step status err acts =
     (let reportStep = reportStep_of x acts step;
          stepop = Op step
      in case err of
           Some e \<Rightarrow>
             (let acts1 = (if status = StatusUnknown then acts\<lparr>MaybeCorrupt := True\<rparr> else acts);
                  errorURN = (if reportStep then URN step else '''')
              in (acts1,
                  Errorf errorURN e #
                  (if reportStep
                   then [resourceOperationFailedEvent step status (Steps acts1) (Debug (Opts acts1))]
                   else [])))
         | None \<Rightarrow>
             if reportStep then
               (let acts1 =
                      (if Logical step
                       then acts\<lparr>Steps := Steps acts + 1,
                                 Ops := (Ops acts)(stepop \<mapsto> count_of (Ops acts) stepop + 1)\<rparr>
                       else acts)
                in (acts1,
                    if Custom (Res step)
                    then [resourceOutputsEvent step False (Debug (Opts acts1))]
                    else []))
             else (acts, []))"

text \<open>
  The first argument after the context is Go's \<^verbatim>\<open>ctx interface{}\<close>: \<open>Some m\<close> when
  it holds a SnapshotMutation, \<open>None\<close> when the type assertion of line 381 fails.
\<close>

definition OnResourceStepPost ::
  "externals \<Rightarrow> Context \<Rightarrow> SnapshotMutation option \<Rightarrow> Step \<Rightarrow> Status \<Rightarrow> error option \<Rightarrow>
     updateActions \<Rightarrow> (error option) result \<times> updateActions \<times> call list" where
  "OnResourceStepPost x context ctx step status err acts =
     (case assertSeen (Seen acts) step of
        Panicked m \<Rightarrow> (Panicked m, acts, [])
      | Returned _ \<Rightarrow>
          if TerminateErr context \<noteq> None then (Returned None, acts, [])
          else
            (case OnResourceStepPost_report x step status err acts of
               (acts1, cs) \<Rightarrow>
                 (case ctx of
                    None \<Rightarrow> (Panicked ''interface conversion'', acts1, cs)
                  | Some m \<Rightarrow>
                      (Returned (End m step (err = None \<or> status = StatusPartialFailure)),
                       acts1,
                       cs @ [EndCall step (err = None \<or> status = StatusPartialFailure)]))))"

subsection \<open>updateActions.OnResourceOutputs\<close>

definition OnResourceOutputs ::
  "externals \<Rightarrow> Context \<Rightarrow> Step \<Rightarrow> updateActions \<Rightarrow>
     (error option) result \<times> updateActions \<times> call list" where
  "OnResourceOutputs x context step acts =
     (case assertSeen (Seen acts) step of
        Panicked m \<Rightarrow> (Panicked m, acts, [])
      | Returned _ \<Rightarrow>
          (Returned (RegisterResourceOutputs context step), acts,
           (if reportStep_of x acts step
            then [resourceOutputsEvent step False (Debug (Opts acts))]
            else [])
           @ [RegisterResourceOutputsCall step]))"

subsection \<open>update and Update\<close>

text \<open>
  The collaborators of \<^verbatim>\<open>update\<close> and \<^verbatim>\<open>Update\<close> that are declared outside this
  file are parameters: each gives its outcome (a return value or a panic) and the calls it
  made. \<^verbatim>\<open>deploy.PlanSummary\<close> is opaque; \<open>None\<close> is the nil summary.
\<close>

datatype PlanSummary = PlanSummary

text \<open>
  \<^verbatim>\<open>planContext\<close>: its field \<^verbatim>\<open>Update\<close> is \<open>Update_pc\<close>.
\<close>

record planContext =
  Update_pc :: UpdateInfo

text \<open>
  \<^verbatim>\<open>planResult\<close>: \<open>Chdir\<close> is the error returned by \<^verbatim>\<open>result.Chdir()\<close> beside
  the function \<^verbatim>\<open>done\<close>; \<open>Walk\<close> is \<^verbatim>\<open>result.Walk(ctx, actions, false)\<close>, which
  gets the actions, drives their callbacks and leaves the actions as its callbacks left
  them.
\<close>

record planResult =
  Chdir :: "(error option) effect"
  Walk :: "updateActions \<Rightarrow>
    (PlanSummary option \<times> error option) result \<times> updateActions \<times> call list"

record engine =
  newPlanContext :: "UpdateInfo \<Rightarrow> (error + planContext) effect"
  plan :: "Context \<Rightarrow> planContext \<Rightarrow> UpdateOptions \<Rightarrow> bool \<Rightarrow> (error + planResult option) effect"
  printPlan :: "Context \<Rightarrow> planResult \<Rightarrow> bool \<Rightarrow> (ResourceChanges option \<times> error option) effect"

text \<open>
  Lines 235-262, the body that runs after \<^verbatim>\<open>defer done()\<close>. A nil ResourceChanges
  is \<open>None\<close>.
\<close>

definition update_deploy ::
  "engine \<Rightarrow> Context \<Rightarrow> planContext \<Rightarrow> UpdateOptions \<Rightarrow> bool \<Rightarrow> planResult \<Rightarrow>
     (ResourceChanges option \<times> error option) effect" where
  "update_deploy e ctx info opts dryRun result =
     (if dryRun then
        (case printPlan e ctx result dryRun of
           (Panicked m, cs) \<Rightarrow> (Panicked m, cs)
         | (Returned (resourceChanges, Some err), cs) \<Rightarrow> (Returned (resourceChanges, Some err), cs)
         | (Returned (resourceChanges, None), cs) \<Rightarrow> (Returned (resourceChanges, None), cs))
      else
        (case Walk result (newUpdateActions (Update_pc info) opts) of
           (Panicked m, actions, cs) \<Rightarrow> (Panicked m, preludeEvent dryRun # cs)
         | (Returned (summary, err), actions, cs) \<Rightarrow>
             if err \<noteq> None \<and> summary = None then (Returned (None, err), preludeEvent dryRun # cs)
             else if summary = None then (Panicked ''assertion failed'', preludeEvent dryRun # cs)
             else
               (Returned (Some (Ops actions), err),
                preludeEvent dryRun # cs
                  @ [updateSummaryEvent (MaybeCorrupt actions) (Ops actions)])))"

text \<open>
  Lines 228-233, the part that runs after \<^verbatim>\<open>defer contract.IgnoreClose(result)\<close>.
  A deferred call runs when the function returns and when it panics.
\<close>

definition update_chdir ::
  "engine \<Rightarrow> Context \<Rightarrow> planContext \<Rightarrow> UpdateOptions \<Rightarrow> bool \<Rightarrow> planResult \<Rightarrow>
     (ResourceChanges option \<times> error option) effect" where
  "update_chdir e ctx info opts dryRun result =
     (case Chdir result of
        (Panicked m, cs) \<Rightarrow> (Panicked m, cs)
      | (Returned (Some err), cs) \<Rightarrow> (Returned (None, Some err), cs)
      | (Returned None, cs) \<Rightarrow>
          (case update_deploy e ctx info opts dryRun result of
             (r, cs1) \<Rightarrow> (r, cs @ cs1 @ [ChdirDone])))"

definition update ::
  "engine \<Rightarrow> Context \<Rightarrow> planContext \<Rightarrow> UpdateOptions \<Rightarrow> bool \<Rightarrow>
     (ResourceChanges option \<times> error option) effect" where
  "update e ctx info opts dryRun =
     (case plan e ctx info opts dryRun of
        (Panicked m, cs) \<Rightarrow> (Panicked m, cs)
      | (Returned (Inl err), cs) \<Rightarrow> (Returned (None, Some err), cs)
      | (Returned (Inr None), cs) \<Rightarrow> (Returned (None, None), cs)
      | (Returned (Inr (Some result)), cs) \<Rightarrow>
          (case update_chdir e ctx info opts dryRun result of
             (r, cs1) \<Rightarrow> (r, cs @ cs1 @ [planResultIgnoreClose])))"

text \<open>
  Lines 164-176, the part of \<^verbatim>\<open>Update\<close> that runs after the cancel event has been
  deferred.
\<close>

definition Update_deferred ::
  "engine \<Rightarrow> UpdateInfo \<Rightarrow> Context \<Rightarrow> UpdateOptions \<Rightarrow> bool \<Rightarrow>
     (ResourceChanges option \<times> error option) effect" where
  "Update_deferred e u ctx opts dryRun =
     (case newPlanContext e u of
        (Panicked m, cs) \<Rightarrow> (Panicked m, cs)
      | (Returned (Inl err), cs) \<Rightarrow> (Returned (None, Some err), cs)
      | (Returned (Inr info), cs) \<Rightarrow>
          (case update e ctx info opts dryRun of
             (r, cs1) \<Rightarrow> (r, cs @ cs1 @ [planContextClose])))"

text \<open>
  \<^verbatim>\<open>Update\<close>. The two arguments that may be nil are options; \<^verbatim>\<open>contract.Require\<close>
  panics when its condition is false.
\<close>

definition Update ::
  "engine \<Rightarrow> UpdateInfo option \<Rightarrow> Context option \<Rightarrow> UpdateOptions \<Rightarrow> bool \<Rightarrow>
     (ResourceChanges option \<times> error option) effect" where
  "Update e u ctx opts dryRun =
     (case u of
        None \<Rightarrow> (Panicked ''update'', [])
      | Some u' \<Rightarrow>
          (case ctx of
             None \<Rightarrow> (Panicked ''ctx'', [])
           | Some ctx' \<Rightarrow>
               (case Update_deferred e u' ctx' opts dryRun of
                  (r, cs) \<Rightarrow> (r, cs @ [cancelEvent]))))"

subsection \<open>Walks\<close>

text \<open>
  One invocation of a callback of the actions, with the context as it is at that moment.
  Any walk, whatever its order, is a sequence of such invocations; a panic ends it.
\<close>

datatype callback =
    StepPre Context Step
  | StepPost Context "SnapshotMutation option" Step Status "error option"
  | Outputs Context Step

fun run_callback :: "externals \<Rightarrow> callback \<Rightarrow> updateActions \<Rightarrow> bool \<times> updateActions \<times> call list" where
  "run_callback x (StepPre context step) acts =
     (case OnResourceStepPre x context step acts of
        (Panicked m, acts', cs) \<Rightarrow> (False, acts', cs)
      | (Returned r, acts', cs) \<Rightarrow> (True, acts', cs))"
| "run_callback x (StepPost context ctx step status err) acts =
     (case OnResourceStepPost x context ctx step status err acts of
        (Panicked m, acts', cs) \<Rightarrow> (False, acts', cs)
      | (Returned r, acts', cs) \<Rightarrow> (True, acts', cs))"
| "run_callback x (Outputs context step) acts =
     (case OnResourceOutputs x context step acts of
        (Panicked m, acts', cs) \<Rightarrow> (False, acts', cs)
      | (Returned r, acts', cs) \<Rightarrow> (True, acts', cs))"

fun run_callbacks :: "externals \<Rightarrow> callback list \<Rightarrow> updateActions \<Rightarrow> updateActions \<times> call list" where
  "run_callbacks x [] acts = (acts, [])"
| "run_callbacks x (cb # cbs) acts =
     (case run_callback x cb acts of
        (False, acts', cs) \<Rightarrow> (acts', cs)
      | (True, acts', cs) \<Rightarrow>
          (case run_callbacks x cbs acts' of (acts'', cs') \<Rightarrow> (acts'', cs @ cs')))"

text \<open>
  Modelled from the spec: the serial plan walker (\<^verbatim>\<open>Parallel <= 1\<close>), declared outside
  this file. For each step, in plan order: pre-notification, the provider's apply, which
  gives the status and error listed with the step, post-notification. A failure to open
  the mutation aborts the step before the provider is called, and an error of the
  post-notification ends the walk; a provider error does not.
\<close>

fun walk_serial ::
  "externals \<Rightarrow> Context \<Rightarrow> (Step \<times> Status \<times> error option) list \<Rightarrow> updateActions \<Rightarrow>
     (PlanSummary option \<times> error option) result \<times> updateActions \<times> call list" where
  "walk_serial x context [] acts = (Returned (Some PlanSummary, None), acts, [])"
| "walk_serial x context ((step, status, err) # rest) acts =
     (case OnResourceStepPre x context step acts of
        (Panicked m, acts1, cs1) \<Rightarrow> (Panicked m, acts1, cs1)
      | (Returned (mutation, Some e), acts1, cs1) \<Rightarrow>
          (Returned (Some PlanSummary, Some e), acts1, cs1)
      | (Returned (mutation, None), acts1, cs1) \<Rightarrow>
          (case OnResourceStepPost x context mutation step status err acts1 of
             (Panicked m, acts2, cs2) \<Rightarrow> (Panicked m, acts2, cs1 @ cs2)
           | (Returned (Some e), acts2, cs2) \<Rightarrow>
               (Returned (Some PlanSummary, Some e), acts2, cs1 @ cs2)
           | (Returned None, acts2, cs2) \<Rightarrow>
               (case walk_serial x context rest acts2 of
                  (r, acts3, cs3) \<Rightarrow> (r, acts3, cs1 @ cs2 @ cs3))))"

text \<open>Selectors on the calls of a trace.\<close>

fun is_EndCall :: "call \<Rightarrow> bool" where
  "is_EndCall (EndCall step keep) = True"
| "is_EndCall c = False"

fun is_Warningf :: "call \<Rightarrow> bool" where
  "is_Warningf (Warningf urn msg) = True"
| "is_Warningf c = False"

fun is_resourceOutputsEvent :: "call \<Rightarrow> bool" where
  "is_resourceOutputsEvent (resourceOutputsEvent step planning debug) = True"
| "is_resourceOutputsEvent c = False"

fun is_cancelEvent :: "call \<Rightarrow> bool" where
  "is_cancelEvent cancelEvent = True"
| "is_cancelEvent c = False"

text \<open>
  The calls expected for one reported step that raises no warning and succeeds, and the
  ResourceChanges expected in the first scenario.
\<close>

definition ok_step_calls :: "bool \<Rightarrow> Step \<Rightarrow> call list" where
  "ok_step_calls debug step =
     [resourcePreEvent step False debug, BeginMutationCall step]
       @ (if Custom (Res step) then [resourceOutputsEvent step False debug] else [])
       @ [EndCall step True]"

definition scenario_changes :: ResourceChanges where
  "scenario_changes = [OpCreate \<mapsto> 1, OpUpdate \<mapsto> 1, OpSame \<mapsto> 1]"

subsection \<open>Concrete values\<close>

text \<open>
  A configuration in which no step is a default-provider step, a snapshot store whose
  calls all succeed, and the steps of the two end-to-end scenarios of the spec.
\<close>

definition ex_externals :: externals where
  "ex_externals = \<lparr>isDefaultProviderStep = (\<lambda>step. False), SpecImportant = ''<b>'', Reset = ''</b>''\<rparr>"

definition ex_mutation :: SnapshotMutation where
  "ex_mutation = \<lparr>End = (\<lambda>step keep. None)\<rparr>"

definition ex_failing_mutation :: SnapshotMutation where
  "ex_failing_mutation = \<lparr>End = (\<lambda>step keep. Some (Error ''checkpoint not written''))\<rparr>"

definition ex_context :: Context where
  "ex_context =
     \<lparr>TerminateErr = None,
      BeginMutation = (\<lambda>step. (Some ex_mutation, None)),
      RegisterResourceOutputs = (\<lambda>step. None)\<rparr>"

definition ex_cancelled :: Context where
  "ex_cancelled = ex_context\<lparr>TerminateErr := Some (Error ''cancelled'')\<rparr>"

definition ex_opts :: UpdateOptions where
  "ex_opts = \<lparr>Analyzers = [], Parallel = 1, Debug = False, reportDefaultProviderSteps = False\<rparr>"

definition ex_state :: State where
  "ex_state = \<lparr>Custom = True, InitErrors = []\<rparr>"

definition ex_A :: Step where
  "ex_A = \<lparr>URN = ''A'', Op = OpCreate, Old = None, Res = ex_state, Logical = True\<rparr>"

definition ex_B :: Step where
  "ex_B =
     \<lparr>URN = ''B'', Op = OpUpdate,
      Old = Some \<lparr>Custom = True, InitErrors = [''first'', ''second'']\<rparr>,
      Res = ex_state, Logical = True\<rparr>"

definition ex_C :: Step where
  "ex_C = \<lparr>URN = ''C'', Op = OpSame, Old = Some ex_state, Res = ex_state, Logical = True\<rparr>"

definition ex_D :: Step where
  "ex_D = \<lparr>URN = ''D'', Op = OpDelete, Old = Some ex_state, Res = ex_state, Logical = True\<rparr>"

definition ex_u :: UpdateInfo where
  "ex_u = UpdateInfo ''stack''"

definition ex_acts :: updateActions where
  "ex_acts = newUpdateActions ex_u ex_opts"

text \<open>The actions after the pre-notification of one step.\<close>

definition ex_acts_seen :: "Step \<Rightarrow> updateActions" where
  "ex_acts_seen step = fst (snd (OnResourceStepPre ex_externals ex_context step ex_acts))"

definition ex_plan :: "(Step \<times> Status \<times> error option) list" where
  "ex_plan = [(ex_A, StatusOK, None), (ex_B, StatusOK, None), (ex_C, StatusOK, None)]"

definition ex_result :: planResult where
  "ex_result = \<lparr>Chdir = (Returned None, []), Walk = walk_serial ex_externals ex_context ex_plan\<rparr>"

definition ex_engine :: engine where
  "ex_engine =
     \<lparr>newPlanContext = (\<lambda>u. (Returned (Inr \<lparr>Update_pc = u\<rparr>), [])),
      plan = (\<lambda>ctx info opts dryRun. (Returned (Inr (Some ex_result)), [])),
      printPlan = (\<lambda>ctx result dryRun. (Returned (None, None), []))\<rparr>"

text \<open>A configuration in which every step is a default-provider step.\<close>

definition ex_default_provider :: externals where
  "ex_default_provider = ex_externals\<lparr>isDefaultProviderStep := (\<lambda>step. True)\<rparr>"

definition ex_outputs_failing :: Context where
  "ex_outputs_failing =
     ex_context\<lparr>RegisterResourceOutputs := (\<lambda>step. Some (Error ''outputs not written''))\<rparr>"

text \<open>
  The second scenario: Delete(D), for which the provider returns Unknown with an error,
  followed by Create(A).
\<close>

definition ex_failing_plan :: "(Step \<times> Status \<times> error option) list" where
  "ex_failing_plan = [(ex_D, StatusUnknown, Some (Error ''unknown'')), (ex_A, StatusOK, None)]"

definition ex_failing_result :: planResult where
  "ex_failing_result =
     \<lparr>Chdir = (Returned None, []),
      Walk = walk_serial ex_externals ex_context ex_failing_plan\<rparr>"

definition ex_failing_engine :: engine where
  "ex_failing_engine =
     ex_engine\<lparr>plan := (\<lambda>ctx info opts dryRun. (Returned (Inr (Some ex_failing_result)), []))\<rparr>"

definition ex_info :: planContext where
  "ex_info = \<lparr>Update_pc = ex_u\<rparr>"

text \<open>
  Engines whose walk ends with a failing checkpoint write, returns an error and no
  summary, or panics, and an engine whose plan context cannot be created.
\<close>

definition ex_store_failing :: Context where
  "ex_store_failing = ex_context\<lparr>BeginMutation := (\<lambda>step. (Some ex_failing_mutation, None))\<rparr>"

definition ex_store_failing_engine :: engine where
  "ex_store_failing_engine =
     ex_engine\<lparr>plan := (\<lambda>ctx info opts dryRun.
       (Returned (Inr (Some \<lparr>Chdir = (Returned None, []),
          Walk = walk_serial ex_externals ex_store_failing [(ex_A, StatusOK, None)]\<rparr>)), []))\<rparr>"

definition ex_walk_failing_engine :: engine where
  "ex_walk_failing_engine =
     ex_engine\<lparr>plan := (\<lambda>ctx info opts dryRun.
       (Returned (Inr (Some \<lparr>Chdir = (Returned None, []),
          Walk = (\<lambda>actions. (Returned (None, Some (Error ''no source'')), actions, []))\<rparr>)), []))\<rparr>"

definition ex_walk_panicking_engine :: engine where
  "ex_walk_panicking_engine =
     ex_engine\<lparr>plan := (\<lambda>ctx info opts dryRun.
       (Returned (Inr (Some \<lparr>Chdir = (Returned None, []),
          Walk = (\<lambda>actions. (Panicked ''walk'', actions, []))\<rparr>)), []))\<rparr>"

definition ex_no_context_engine :: engine where
  "ex_no_context_engine =
     ex_engine\<lparr>newPlanContext := (\<lambda>u. (Returned (Inl (Error ''no project'')), []))\<rparr>"

section \<open>HasChanges\<close>

lemma HasChanges_range_acc:
  "HasChanges_range ks changes c = c + HasChanges_range ks changes 0"
proof (induction ks arbitrary: c)
  case Nil
  show ?case by simp
next
  case (Cons op ks)
  show ?case
  proof (cases "changes op")
    case None
    then show ?thesis using Cons.IH [of c] by simp
  next
    case (Some count)
    show ?thesis
    proof (cases "op = OpSame")
      case True
      then show ?thesis using Some Cons.IH [of c] by simp
    next
      case False
      have "HasChanges_range (op # ks) changes c = HasChanges_range ks changes (c + count)"
        using Some False by simp
      also have "\<dots> = c + count + HasChanges_range ks changes 0"
        by (rule Cons.IH)
      also have "\<dots> = c + HasChanges_range ks changes count"
        using Cons.IH [of count] by (simp add: add.assoc)
      also have "\<dots> = c + HasChanges_range (op # ks) changes 0"
        using Some False by simp
      finally show ?thesis .
    qed
  qed
qed

lemma HasChanges_range_sum:
  assumes "distinct ks" and "set ks \<subseteq> dom changes"
  shows "HasChanges_range ks changes 0 = (\<Sum>op \<in> set ks - {OpSame}. count_of changes op)"
  using assms
proof (induction ks)
  case Nil
  show ?case by simp
next
  case (Cons op ks)
  from Cons.prems obtain count where cnt: "changes op = Some count"
    by auto
  from Cons.prems have notin: "op \<notin> set ks" and d: "distinct ks" and sub: "set ks \<subseteq> dom changes"
    by auto
  have IH: "HasChanges_range ks changes 0 = (\<Sum>k \<in> set ks - {OpSame}. count_of changes k)"
    using Cons.IH d sub by simp
  show ?case
  proof (cases "op = OpSame")
    case True
    have "set (op # ks) - {OpSame} = set ks - {OpSame}"
      using True by auto
    then show ?thesis using True cnt IH by simp
  next
    case False
    have eq: "set (op # ks) - {OpSame} = insert op (set ks - {OpSame})"
      using False by auto
    have "HasChanges_range (op # ks) changes 0 = HasChanges_range ks changes count"
      using cnt False by simp
    also have "\<dots> = count + HasChanges_range ks changes 0"
      by (rule HasChanges_range_acc)
    also have "\<dots> = count_of changes op + (\<Sum>k \<in> set ks - {OpSame}. count_of changes k)"
      using IH cnt by (simp add: count_of_def)
    also have "\<dots> = (\<Sum>k \<in> insert op (set ks - {OpSame}). count_of changes k)"
      using notin by simp
    finally show ?thesis using eq by simp
  qed
qed

lemma sint_non_same_sum:
  assumes "- (2 ^ 63) \<le> (\<Sum>op \<in> dom changes - {OpSame}. sint (count_of changes op))"
    and "(\<Sum>op \<in> dom changes - {OpSame}. sint (count_of changes op)) < 2 ^ 63"
  shows "sint (non_same_sum changes) = (\<Sum>op \<in> dom changes - {OpSame}. sint (count_of changes op))"
proof -
  let ?S = "\<Sum>op \<in> dom changes - {OpSame}. sint (count_of changes op)"
  have e: "(word_of_int ?S :: go_int) = non_same_sum changes"
    by (simp add: non_same_sum_def)
  have "sint (word_of_int ?S :: go_int) = signed_take_bit 63 ?S"
    by (simp only: sint_sbintrunc') simp
  also have "\<dots> = ?S"
    using assms by (simp add: signed_take_bit_int_eq_self)
  finally show ?thesis
    by (simp only: e)
qed

text \<open>
  C6. For every ResourceChanges map, and every order in which \<^verbatim>\<open>range\<close> visits its
  keys, HasChanges() returns true if and only if the sum of the counts over all
  operation kinds other than Same is greater than zero. The counts are Go ints and the
  loop adds them as Go ints; whenever their sum as integers fits in a Go int, it is that
  sum which is compared with zero.
\<close>

theorem HasChanges_iff_non_same_sum_positive:
  assumes "distinct ks" and "set ks = dom changes"
  shows "(HasChanges ks changes \<longleftrightarrow> 0 <s non_same_sum changes)
    \<and> (- (2 ^ 63) \<le> (\<Sum>op \<in> dom changes - {OpSame}. sint (count_of changes op))
         \<and> (\<Sum>op \<in> dom changes - {OpSame}. sint (count_of changes op)) < 2 ^ 63
       \<longrightarrow> (HasChanges ks changes
              \<longleftrightarrow> 0 < (\<Sum>op \<in> dom changes - {OpSame}. sint (count_of changes op))))"
proof -
  have "HasChanges_range ks changes 0 = (\<Sum>op \<in> set ks - {OpSame}. count_of changes op)"
    using assms by (intro HasChanges_range_sum) simp_all
  then have "HasChanges ks changes \<longleftrightarrow> 0 <s non_same_sum changes"
    using assms(2) by (simp add: HasChanges_def non_same_sum_def)
  then show ?thesis
    using sint_non_same_sum [of changes] by (simp add: word_sless_alt)
qed

theorem HasChanges_iff_non_same_sum_positive_witness:
  "distinct [OpSame, OpCreate]
   \<and> set [OpSame, OpCreate] = dom [OpCreate \<mapsto> 2, OpSame \<mapsto> (5::go_int)]
   \<and> (\<Sum>op \<in> dom [OpCreate \<mapsto> 2, OpSame \<mapsto> (5::go_int)] - {OpSame}.
         sint (count_of [OpCreate \<mapsto> 2, OpSame \<mapsto> 5] op)) = 2
   \<and> HasChanges [OpSame, OpCreate] [OpCreate \<mapsto> 2, OpSame \<mapsto> 5]
   \<and> 0 <s non_same_sum [OpCreate \<mapsto> 2, OpSame \<mapsto> 5]"
proof -
  have d: "distinct [OpSame, OpCreate]" by simp
  have s: "set [OpSame, OpCreate] = dom [OpCreate \<mapsto> 2, OpSame \<mapsto> (5::go_int)]" by auto
  have i: "(\<Sum>op \<in> dom [OpCreate \<mapsto> 2, OpSame \<mapsto> (5::go_int)] - {OpSame}.
         sint (count_of [OpCreate \<mapsto> 2, OpSame \<mapsto> 5] op)) = 2"
    by (simp add: count_of_def)
  let ?S = "\<Sum>op \<in> dom [OpCreate \<mapsto> 2, OpSame \<mapsto> (5::go_int)] - {OpSame}.
         sint (count_of [OpCreate \<mapsto> 2, OpSame \<mapsto> 5] op)"
  have r: "- (2 ^ 63) \<le> ?S \<and> ?S < 2 ^ 63" and p: "0 < ?S"
    by (simp_all only: i) simp_all
  have h: "HasChanges [OpSame, OpCreate] [OpCreate \<mapsto> 2, OpSame \<mapsto> 5]"
    using HasChanges_iff_non_same_sum_positive [OF d s] r p by blast
  then have "0 <s non_same_sum [OpCreate \<mapsto> 2, OpSame \<mapsto> 5]"
    using HasChanges_iff_non_same_sum_positive [OF d s] by blast
  then show ?thesis
    using d s i h by blast
qed

section \<open>The seen-step registry\<close>

lemma assertSeen_Returned: "seen (URN step) \<noteq> None \<Longrightarrow> assertSeen seen step = Returned ()"
  by (auto simp: assertSeen_def)

lemma OnResourceStepPre_marks_seen:
  "Seen (fst (snd (OnResourceStepPre x context step acts))) (URN step) = Some step"
  by (simp add: OnResourceStepPre_def Let_def split: prod.splits result.splits)

lemma ex_acts_seen_registered: "Seen (ex_acts_seen step) (URN step) \<noteq> None"
  by (simp add: ex_acts_seen_def OnResourceStepPre_marks_seen)

lemma TerminateErr_ex_context: "TerminateErr ex_context = None"
  by (simp add: ex_context_def)

lemma TerminateErr_ex_cancelled: "TerminateErr ex_cancelled \<noteq> None"
  by (simp add: ex_cancelled_def)

section \<open>Post-notification\<close>

lemma OnResourceStepPost_run:
  assumes "Seen acts (URN step) \<noteq> None" and "TerminateErr context = None"
  shows "OnResourceStepPost x context (Some m) step status err acts =
    (Returned (End m step (err = None \<or> status = StatusPartialFailure)),
     fst (OnResourceStepPost_report x step status err acts),
     snd (OnResourceStepPost_report x step status err acts)
       @ [EndCall step (err = None \<or> status = StatusPartialFailure)])"
  using assms by (simp add: OnResourceStepPost_def assertSeen_Returned split: prod.splits)

lemma OnResourceStepPost_report_no_End:
  "filter is_EndCall (snd (OnResourceStepPost_report x step status err acts)) = []"
  by (simp add: OnResourceStepPost_report_def Let_def split: option.splits)

text \<open>
  C4. When the post-notification of a step runs after the cancellation signal (the
  termination error is not nil), the actions are left as they were (the Steps counter, the
  Ops map and MaybeCorrupt among them) and no call is made: no End of the mutation, no
  diagnostic and no resource event, whatever status and error the provider gave. For a
  step in the seen-step registry the callback returns nil.
\<close>

theorem OnResourceStepPost_cancelled:
  assumes "TerminateErr context \<noteq> None"
  shows "snd (OnResourceStepPost x context ctx step status err acts) = (acts, [])
    \<and> (Seen acts (URN step) \<noteq> None \<longrightarrow>
          OnResourceStepPost x context ctx step status err acts = (Returned None, acts, []))"
  using assms by (auto simp: OnResourceStepPost_def assertSeen_def split: option.splits)

theorem OnResourceStepPost_cancelled_witness:
  "TerminateErr ex_cancelled \<noteq> None
   \<and> Seen (ex_acts_seen ex_D) (URN ex_D) \<noteq> None
   \<and> OnResourceStepPost ex_externals ex_cancelled (Some ex_mutation) ex_D StatusUnknown
        (Some (Error ''unknown'')) (ex_acts_seen ex_D)
      = (Returned None, ex_acts_seen ex_D, [])"
  using OnResourceStepPost_cancelled [OF TerminateErr_ex_cancelled, where x = ex_externals
      and ctx = "Some ex_mutation" and step = ex_D and status = StatusUnknown
      and err = "Some (Error ''unknown'')" and acts = "ex_acts_seen ex_D"]
    TerminateErr_ex_cancelled ex_acts_seen_registered [of ex_D]
  by simp

text \<open>
  C2. For a step that reaches its post-notification with cancellation not signaled, End
  is called once on the mutation, as the last call, and its keep argument is true exactly
  when the provider error is nil or the status is PartialFailure. In particular a step
  whose provider returned Unknown with an error still has its checkpoint committed, with
  keep = false.
\<close>

theorem OnResourceStepPost_End_keep:
  assumes "Seen acts (URN step) \<noteq> None" and "TerminateErr context = None"
  shows "filter is_EndCall (snd (snd (OnResourceStepPost x context (Some m) step status err acts)))
       = [EndCall step (err = None \<or> status = StatusPartialFailure)]
    \<and> last (snd (snd (OnResourceStepPost x context (Some m) step status err acts)))
       = EndCall step (err = None \<or> status = StatusPartialFailure)
    \<and> (err \<noteq> None \<and> status = StatusUnknown \<longrightarrow>
         last (snd (snd (OnResourceStepPost x context (Some m) step status err acts)))
           = EndCall step False)"
  using assms by (auto simp: OnResourceStepPost_run OnResourceStepPost_report_no_End)

theorem OnResourceStepPost_End_keep_witness:
  "Seen (ex_acts_seen ex_D) (URN ex_D) \<noteq> None
   \<and> TerminateErr ex_context = None
   \<and> filter is_EndCall
        (snd (snd (OnResourceStepPost ex_externals ex_context (Some ex_mutation) ex_D
           StatusUnknown (Some (Error ''unknown'')) (ex_acts_seen ex_D))))
      = [EndCall ex_D False]
   \<and> last (snd (snd (OnResourceStepPost ex_externals ex_context (Some ex_mutation) ex_D
           StatusUnknown (Some (Error ''unknown'')) (ex_acts_seen ex_D))))
      = EndCall ex_D False"
  using OnResourceStepPost_End_keep [OF ex_acts_seen_registered TerminateErr_ex_context,
      where step = ex_D and x = ex_externals and m = ex_mutation and status = StatusUnknown
      and err = "Some (Error ''unknown'')"]
    ex_acts_seen_registered [of ex_D] TerminateErr_ex_context
  by simp

text \<open>
  C9. For a step whose post-notification runs with cancellation not signaled, the callback
  returns what End of the mutation returns: nil when End succeeds, also when the provider
  reported an error, and the error of End when it fails, also when the provider call
  succeeded. The provider error is passed to the diagnostics sink (Errorf), tagged with
  the step's URN, or with the empty URN when the step is not reported.
\<close>

theorem OnResourceStepPost_returns_End:
  assumes "Seen acts (URN step) \<noteq> None" and "TerminateErr context = None"
  shows "fst (OnResourceStepPost x context (Some m) step status err acts)
       = Returned (End m step (err = None \<or> status = StatusPartialFailure))
    \<and> (\<forall>e. err = Some e \<longrightarrow>
         Errorf (if reportStep_of x acts step then URN step else '''') e
           \<in> set (snd (snd (OnResourceStepPost x context (Some m) step status err acts))))"
  using assms
  by (auto simp: OnResourceStepPost_run OnResourceStepPost_report_def Let_def)

theorem OnResourceStepPost_returns_End_witness:
  "Seen (ex_acts_seen ex_A) (URN ex_A) \<noteq> None
   \<and> TerminateErr ex_context = None
   \<and> fst (OnResourceStepPost ex_externals ex_context (Some ex_failing_mutation) ex_A
        StatusOK None (ex_acts_seen ex_A))
      = Returned (Some (Error ''checkpoint not written''))
   \<and> fst (OnResourceStepPost ex_externals ex_context (Some ex_mutation) ex_A
        StatusUnknown (Some (Error ''unknown'')) (ex_acts_seen ex_A))
      = Returned None
   \<and> Errorf ''A'' (Error ''unknown'')
       \<in> set (snd (snd (OnResourceStepPost ex_externals ex_context (Some ex_mutation) ex_A
        StatusUnknown (Some (Error ''unknown'')) (ex_acts_seen ex_A))))"
  using OnResourceStepPost_returns_End [OF ex_acts_seen_registered TerminateErr_ex_context,
      where step = ex_A and x = ex_externals and m = ex_failing_mutation and status = StatusOK
      and err = None]
    OnResourceStepPost_returns_End [OF ex_acts_seen_registered TerminateErr_ex_context,
      where step = ex_A and x = ex_externals and m = ex_mutation and status = StatusUnknown
      and err = "Some (Error ''unknown'')"]
    ex_acts_seen_registered [of ex_A] TerminateErr_ex_context
  by (simp add: ex_failing_mutation_def ex_mutation_def reportStep_of_def ex_externals_def ex_A_def)

section \<open>Resource outputs\<close>

lemma Opts_ex_acts_seen: "Opts (ex_acts_seen step) = ex_opts"
  by (simp add: ex_acts_seen_def OnResourceStepPre_def Let_def ex_acts_def newUpdateActions_def
      split: prod.splits result.splits)

text \<open>
  C10. For a step in the seen-step registry, OnResourceOutputs calls
  RegisterResourceOutputs on the snapshot manager, as its last call, and returns what that
  call returns. The check for default-provider steps decides only whether the
  resource-outputs event is emitted: for a default-provider step with reporting disabled
  the snapshot write is the only call made.
\<close>

theorem OnResourceOutputs_registers:
  assumes "Seen acts (URN step) \<noteq> None"
  shows "fst (OnResourceOutputs x cx step acts)
       = Returned (RegisterResourceOutputs cx step)
    \<and> fst (snd (OnResourceOutputs x cx step acts)) = acts
    \<and> last (snd (snd (OnResourceOutputs x cx step acts))) = RegisterResourceOutputsCall step
    \<and> filter is_resourceOutputsEvent (snd (snd (OnResourceOutputs x cx step acts)))
       = (if reportDefaultProviderSteps (Opts acts) \<or> \<not> isDefaultProviderStep x step
          then [resourceOutputsEvent step False (Debug (Opts acts))] else [])
    \<and> (isDefaultProviderStep x step \<and> \<not> reportDefaultProviderSteps (Opts acts) \<longrightarrow>
         snd (snd (OnResourceOutputs x cx step acts)) = [RegisterResourceOutputsCall step])"
  using assms by (simp add: OnResourceOutputs_def assertSeen_Returned reportStep_of_def)

theorem OnResourceOutputs_registers_witness:
  "Seen (ex_acts_seen ex_A) (URN ex_A) \<noteq> None
   \<and> isDefaultProviderStep ex_default_provider ex_A
   \<and> \<not> reportDefaultProviderSteps (Opts (ex_acts_seen ex_A))
   \<and> OnResourceOutputs ex_default_provider ex_outputs_failing ex_A (ex_acts_seen ex_A)
      = (Returned (Some (Error ''outputs not written'')), ex_acts_seen ex_A,
         [RegisterResourceOutputsCall ex_A])"
proof -
  have r: "\<not> reportDefaultProviderSteps (Opts (ex_acts_seen ex_A))"
    by (simp add: Opts_ex_acts_seen ex_opts_def)
  have d: "isDefaultProviderStep ex_default_provider ex_A"
    by (simp add: ex_default_provider_def)
  have R: "RegisterResourceOutputs ex_outputs_failing ex_A = Some (Error ''outputs not written'')"
    by (simp add: ex_outputs_failing_def)
  show ?thesis
    using OnResourceOutputs_registers [OF ex_acts_seen_registered, where step = ex_A
        and x = ex_default_provider and cx = ex_outputs_failing] r d R
      ex_acts_seen_registered [of ex_A]
    by (metis prod.collapse)
qed

section \<open>Counters and events of the post-notification\<close>

lemma OnResourceStepPost_state:
  assumes "Seen acts (URN step) \<noteq> None" and "TerminateErr cx = None"
  shows "fst (snd (OnResourceStepPost x cx ctx step status err acts))
       = fst (OnResourceStepPost_report x step status err acts)"
  using assms
  by (simp add: OnResourceStepPost_def assertSeen_Returned split: prod.splits option.splits)

lemma OnResourceStepPost_outputs:
  assumes "Seen acts (URN step) \<noteq> None" and "TerminateErr cx = None"
  shows "filter is_resourceOutputsEvent (snd (snd (OnResourceStepPost x cx ctx step status err acts)))
       = filter is_resourceOutputsEvent (snd (OnResourceStepPost_report x step status err acts))"
  using assms
  by (simp add: OnResourceStepPost_def assertSeen_Returned split: prod.splits option.splits)

text \<open>
  C5, amended. For a step in the seen-step registry whose post-notification runs with
  cancellation not signaled, with a nil provider error, and which is reportable (reporting
  of default-provider steps enabled, or the step is not a default-provider step): the
  Steps counter and Ops[step.Op()] are each incremented by one if and only if the step is
  Logical (nothing else in the actions changes), and a resource-outputs event is emitted if
  and only if the step's resource is a custom resource.
\<close>

theorem OnResourceStepPost_counts_logical:
  assumes "Seen acts (URN step) \<noteq> None" and "TerminateErr cx = None"
    and "reportDefaultProviderSteps (Opts acts) \<or> \<not> isDefaultProviderStep x step"
  shows "fst (snd (OnResourceStepPost x cx ctx step status None acts))
       = (if Logical step
          then acts\<lparr>Steps := Steps acts + 1,
                    Ops := (Ops acts)(Op step \<mapsto> count_of (Ops acts) (Op step) + 1)\<rparr>
          else acts)
    \<and> (Steps (fst (snd (OnResourceStepPost x cx ctx step status None acts))) = Steps acts + 1
         \<longleftrightarrow> Logical step)
    \<and> (count_of (Ops (fst (snd (OnResourceStepPost x cx ctx step status None acts)))) (Op step)
           = count_of (Ops acts) (Op step) + 1
         \<longleftrightarrow> Logical step)
    \<and> filter is_resourceOutputsEvent
         (snd (snd (OnResourceStepPost x cx ctx step status None acts)))
       = (if Custom (Res step) then [resourceOutputsEvent step False (Debug (Opts acts))] else [])"
  using assms
  by (simp add: OnResourceStepPost_state OnResourceStepPost_outputs OnResourceStepPost_report_def
      reportStep_of_def Let_def count_of_def)

theorem OnResourceStepPost_counts_logical_witness:
  "Seen (ex_acts_seen ex_A) (URN ex_A) \<noteq> None
   \<and> TerminateErr ex_context = None
   \<and> \<not> isDefaultProviderStep ex_externals ex_A
   \<and> Logical ex_A \<and> Custom (Res ex_A)
   \<and> Steps (ex_acts_seen ex_A) = 0
   \<and> Steps (fst (snd (OnResourceStepPost ex_externals ex_context (Some ex_mutation) ex_A
        StatusOK None (ex_acts_seen ex_A)))) = 1
   \<and> Ops (fst (snd (OnResourceStepPost ex_externals ex_context (Some ex_mutation) ex_A
        StatusOK None (ex_acts_seen ex_A)))) OpCreate = Some 1
   \<and> filter is_resourceOutputsEvent
        (snd (snd (OnResourceStepPost ex_externals ex_context (Some ex_mutation) ex_A
           StatusOK None (ex_acts_seen ex_A))))
      = [resourceOutputsEvent ex_A False False]"
proof -
  have nd: "\<not> isDefaultProviderStep ex_externals ex_A"
    by (simp add: ex_externals_def)
  have r: "reportDefaultProviderSteps (Opts (ex_acts_seen ex_A)) \<or> \<not> isDefaultProviderStep ex_externals ex_A"
    using nd by simp
  have s0: "Steps (ex_acts_seen ex_A) = 0"
    by (simp add: ex_acts_seen_def OnResourceStepPre_def Let_def ex_acts_def newUpdateActions_def
      split: prod.splits result.splits)
  have o0: "Ops (ex_acts_seen ex_A) = Map.empty"
    by (simp add: ex_acts_seen_def OnResourceStepPre_def Let_def ex_acts_def newUpdateActions_def
      split: prod.splits result.splits)
  have l: "Logical ex_A" "Custom (Res ex_A)" "Op ex_A = OpCreate"
    by (simp_all add: ex_A_def ex_state_def)
  show ?thesis
    using OnResourceStepPost_counts_logical [OF ex_acts_seen_registered TerminateErr_ex_context r,
        where ctx = "Some ex_mutation" and status = StatusOK]
      ex_acts_seen_registered [of ex_A] TerminateErr_ex_context nd l s0 o0
    by (simp add: count_of_def Opts_ex_acts_seen ex_opts_def)
qed

text \<open>
  C5 as stated fails when cancellation has been signaled: the Logical, reportable, custom
  step A with a nil provider error is not counted and no resource-outputs event is emitted.
\<close>

theorem OnResourceStepPost_cancelled_counts_nothing:
  "\<not> (Steps (fst (snd (OnResourceStepPost ex_externals ex_cancelled (Some ex_mutation) ex_A
          StatusOK None (ex_acts_seen ex_A)))) = Steps (ex_acts_seen ex_A) + 1
        \<longleftrightarrow> Logical ex_A)
   \<and> \<not> (filter is_resourceOutputsEvent
          (snd (snd (OnResourceStepPost ex_externals ex_cancelled (Some ex_mutation) ex_A
             StatusOK None (ex_acts_seen ex_A)))) \<noteq> []
        \<longleftrightarrow> Custom (Res ex_A))"
proof -
  have "OnResourceStepPost ex_externals ex_cancelled (Some ex_mutation) ex_A StatusOK None
      (ex_acts_seen ex_A) = (Returned None, ex_acts_seen ex_A, [])"
    using ex_acts_seen_registered [of ex_A]
    by (simp add: OnResourceStepPost_def assertSeen_Returned ex_cancelled_def)
  then show ?thesis
    by (simp add: ex_A_def ex_state_def)
qed


section \<open>The corruption flag\<close>

lemma OnResourceStepPost_report_MaybeCorrupt:
  "MaybeCorrupt (fst (OnResourceStepPost_report x step status err acts))
     \<longleftrightarrow> MaybeCorrupt acts \<or> (err \<noteq> None \<and> status = StatusUnknown)"
  by (simp add: OnResourceStepPost_report_def Let_def split: option.splits)

lemma OnResourceStepPost_MaybeCorrupt:
  "MaybeCorrupt (fst (snd (OnResourceStepPost x cx ctx step status err acts)))
     \<longleftrightarrow> MaybeCorrupt acts
        \<or> (Seen acts (URN step) \<noteq> None \<and> TerminateErr cx = None
             \<and> err \<noteq> None \<and> status = StatusUnknown)"
proof (cases "Seen acts (URN step) \<noteq> None \<and> TerminateErr cx = None")
  case True
  then have "fst (snd (OnResourceStepPost x cx ctx step status err acts))
      = fst (OnResourceStepPost_report x step status err acts)"
    by (simp add: OnResourceStepPost_def assertSeen_Returned split: prod.splits option.splits)
  then show ?thesis
    using True by (simp add: OnResourceStepPost_report_MaybeCorrupt)
next
  case False
  then have "fst (snd (OnResourceStepPost x cx ctx step status err acts)) = acts"
    by (auto simp: OnResourceStepPost_def assertSeen_def split: option.splits)
  then show ?thesis
    using False by auto
qed

lemma OnResourceStepPre_MaybeCorrupt:
  "MaybeCorrupt (fst (snd (OnResourceStepPre x cx step acts))) = MaybeCorrupt acts"
  by (simp add: OnResourceStepPre_def Let_def split: prod.splits result.splits)

lemma OnResourceOutputs_MaybeCorrupt:
  "MaybeCorrupt (fst (snd (OnResourceOutputs x cx step acts))) = MaybeCorrupt acts"
  by (simp add: OnResourceOutputs_def split: result.splits)

lemma run_callback_MaybeCorrupt:
  "MaybeCorrupt acts \<Longrightarrow> MaybeCorrupt (fst (snd (run_callback x cb acts)))"
proof (cases cb)
  case (StepPre cx step)
  assume "MaybeCorrupt acts"
  then have "MaybeCorrupt (fst (snd (OnResourceStepPre x cx step acts)))"
    by (simp add: OnResourceStepPre_MaybeCorrupt)
  then show ?thesis
    using StepPre by (auto split: prod.splits result.splits)
next
  case (StepPost cx ctx step status err)
  assume "MaybeCorrupt acts"
  then have "MaybeCorrupt (fst (snd (OnResourceStepPost x cx ctx step status err acts)))"
    by (simp add: OnResourceStepPost_MaybeCorrupt)
  then show ?thesis
    using StepPost by (auto split: prod.splits result.splits)
next
  case (Outputs cx step)
  assume "MaybeCorrupt acts"
  then have "MaybeCorrupt (fst (snd (OnResourceOutputs x cx step acts)))"
    by (simp add: OnResourceOutputs_MaybeCorrupt)
  then show ?thesis
    using Outputs by (auto split: prod.splits result.splits)
qed

lemma run_callbacks_MaybeCorrupt:
  "MaybeCorrupt acts \<Longrightarrow> MaybeCorrupt (fst (run_callbacks x cbs acts))"
proof (induction cbs arbitrary: acts)
  case Nil
  then show ?case by simp
next
  case (Cons cb cbs)
  obtain ok acts' cs where r: "run_callback x cb acts = (ok, acts', cs)"
    by (cases "run_callback x cb acts") auto
  have m: "MaybeCorrupt acts'"
    using run_callback_MaybeCorrupt [OF Cons.prems, of x cb] r by simp
  show ?case
  proof (cases ok)
    case True
    then show ?thesis
      using r Cons.IH [OF m] by (auto split: prod.splits)
  next
    case False
    then show ?thesis
      using r m by simp
  qed
qed

lemma run_callbacks_sticky:
  "MaybeCorrupt (fst (run_callbacks x cbs1 acts))
     \<Longrightarrow> MaybeCorrupt (fst (run_callbacks x (cbs1 @ cbs2) acts))"
proof (induction cbs1 arbitrary: acts)
  case Nil
  then show ?case by (simp add: run_callbacks_MaybeCorrupt)
next
  case (Cons cb cbs1)
  obtain ok acts' cs where r: "run_callback x cb acts = (ok, acts', cs)"
    by (cases "run_callback x cb acts") auto
  show ?case
  proof (cases ok)
    case True
    then have "MaybeCorrupt (fst (run_callbacks x cbs1 acts'))"
      using Cons.prems r by (auto split: prod.splits)
    then have "MaybeCorrupt (fst (run_callbacks x (cbs1 @ cbs2) acts'))"
      by (rule Cons.IH)
    then show ?thesis
      using True r by (auto split: prod.splits)
  next
    case False
    then show ?thesis
      using Cons.prems r by simp
  qed
qed

lemma update_deploy_summary:
  assumes "Walk result (newUpdateActions (Update_pc info) opts) = (Returned (Some s, werr), actions, cs)"
  shows "update_deploy e ctx info opts False result =
    (Returned (Some (Ops actions), werr),
     preludeEvent False # cs @ [updateSummaryEvent (MaybeCorrupt actions) (Ops actions)])"
  using assms by (simp add: update_deploy_def)

lemma update_summary:
  assumes "plan e ctx info opts False = (Returned (Inr (Some result)), cs0)"
    and "Chdir result = (Returned None, cs1)"
    and "Walk result (newUpdateActions (Update_pc info) opts) = (Returned (Some s, werr), actions, cs2)"
  shows "update e ctx info opts False =
    (Returned (Some (Ops actions), werr),
     cs0 @ cs1 @ preludeEvent False # cs2
       @ [updateSummaryEvent (MaybeCorrupt actions) (Ops actions), ChdirDone, planResultIgnoreClose])"
  using assms by (simp add: update_def update_chdir_def update_deploy_summary)


lemmas ex_defs =
  ex_externals_def ex_mutation_def ex_failing_mutation_def ex_context_def ex_cancelled_def
  ex_opts_def ex_state_def ex_A_def ex_B_def ex_C_def ex_D_def ex_u_def ex_acts_def
  ex_engine_def ex_info_def

lemmas callback_defs =
  OnResourceStepPre_def OnResourceStepPre_report_def OnResourceStepPost_def
  OnResourceStepPost_report_def OnResourceOutputs_def assertSeen_def reportStep_of_def
  newUpdateActions_def count_of_def

text \<open>
  C3, amended. The post-notification of a step leaves MaybeCorrupt true exactly when it
  was true before, or the step is in the seen-step registry, cancellation is not signaled,
  the provider error is not nil and the status is Unknown; so a step with Unknown status
  and a nil error does not set it. No callback clears the flag: once it is set after some
  callbacks of a walk it is set after any further ones. The update-summary event carries
  the flag as the walk left it.
\<close>

theorem MaybeCorrupt_set_sticky_reported:
  "(MaybeCorrupt (fst (snd (OnResourceStepPost x cx ctx step status err acts)))
      \<longleftrightarrow> MaybeCorrupt acts
          \<or> (Seen acts (URN step) \<noteq> None \<and> TerminateErr cx = None
               \<and> err \<noteq> None \<and> status = StatusUnknown))
   \<and> (MaybeCorrupt (fst (run_callbacks x cbs1 acts0))
        \<longrightarrow> MaybeCorrupt (fst (run_callbacks x (cbs1 @ cbs2) acts0)))
   \<and> (plan e c info opts False = (Returned (Inr (Some result)), cs0)
        \<and> Chdir result = (Returned None, cs1)
        \<and> Walk result (newUpdateActions (Update_pc info) opts)
            = (Returned (Some s, werr), actions, cs2)
        \<longrightarrow> snd (update e c info opts False)
            = cs0 @ cs1 @ preludeEvent False # cs2
                @ [updateSummaryEvent (MaybeCorrupt actions) (Ops actions),
                   ChdirDone, planResultIgnoreClose])"
  using run_callbacks_sticky [of x cbs1 acts0 cbs2]
  by (auto simp: OnResourceStepPost_MaybeCorrupt update_summary)

lemma ex_failing_walk:
  "walk_serial ex_externals ex_context ex_failing_plan (newUpdateActions ex_u ex_opts) =
    (Returned (Some PlanSummary, None),
     \<lparr>Steps = 1, Ops = [OpCreate \<mapsto> 1], Seen = [''D'' \<mapsto> ex_D, ''A'' \<mapsto> ex_A],
      MaybeCorrupt = True, Update_ua = ex_u, Opts = ex_opts\<rparr>,
     [resourcePreEvent ex_D False False, BeginMutationCall ex_D,
      Errorf ''D'' (Error ''unknown''),
      resourceOperationFailedEvent ex_D StatusUnknown 0 False, EndCall ex_D False,
      resourcePreEvent ex_A False False, BeginMutationCall ex_A,
      resourceOutputsEvent ex_A False False, EndCall ex_A True])"
  by (simp add: ex_failing_plan_def ex_defs callback_defs Let_def)

theorem MaybeCorrupt_set_sticky_reported_witness:
  "MaybeCorrupt (fst (snd (OnResourceStepPost ex_externals ex_context (Some ex_mutation) ex_D
      StatusUnknown (Some (Error ''unknown'')) (ex_acts_seen ex_D))))
   \<and> \<not> MaybeCorrupt (fst (snd (OnResourceStepPost ex_externals ex_context (Some ex_mutation) ex_D
      StatusUnknown None (ex_acts_seen ex_D))))
   \<and> MaybeCorrupt (fst (run_callbacks ex_externals
        [StepPre ex_context ex_D,
         StepPost ex_context (Some ex_mutation) ex_D StatusUnknown (Some (Error ''unknown''))]
        ex_acts))
   \<and> MaybeCorrupt (fst (run_callbacks ex_externals
        ([StepPre ex_context ex_D,
          StepPost ex_context (Some ex_mutation) ex_D StatusUnknown (Some (Error ''unknown''))]
         @ [StepPre ex_context ex_A, StepPost ex_context (Some ex_mutation) ex_A StatusOK None])
        ex_acts))
   \<and> snd (update ex_failing_engine ex_context ex_info ex_opts False)
      = [preludeEvent False,
         resourcePreEvent ex_D False False, BeginMutationCall ex_D,
         Errorf ''D'' (Error ''unknown''),
         resourceOperationFailedEvent ex_D StatusUnknown 0 False, EndCall ex_D False,
         resourcePreEvent ex_A False False, BeginMutationCall ex_A,
         resourceOutputsEvent ex_A False False, EndCall ex_A True,
         updateSummaryEvent True [OpCreate \<mapsto> 1], ChdirDone, planResultIgnoreClose]"
proof -
  let ?cbs1 = "[StepPre ex_context ex_D,
         StepPost ex_context (Some ex_mutation) ex_D StatusUnknown (Some (Error ''unknown''))]"
  let ?cbs2 = "[StepPre ex_context ex_A, StepPost ex_context (Some ex_mutation) ex_A StatusOK None]"
  note T = MaybeCorrupt_set_sticky_reported
  have mc0: "\<not> MaybeCorrupt (ex_acts_seen ex_D)"
    by (simp add: ex_acts_seen_def OnResourceStepPre_MaybeCorrupt ex_acts_def newUpdateActions_def)
  have a1: "MaybeCorrupt (fst (snd (OnResourceStepPost ex_externals ex_context (Some ex_mutation) ex_D
      StatusUnknown (Some (Error ''unknown'')) (ex_acts_seen ex_D))))"
    using T [THEN conjunct1, of ex_externals ex_context "Some ex_mutation" ex_D StatusUnknown
        "Some (Error ''unknown'')" "ex_acts_seen ex_D"]
      ex_acts_seen_registered [of ex_D] TerminateErr_ex_context
    by simp
  have a2: "\<not> MaybeCorrupt (fst (snd (OnResourceStepPost ex_externals ex_context (Some ex_mutation) ex_D
      StatusUnknown None (ex_acts_seen ex_D))))"
    using T [THEN conjunct1, of ex_externals ex_context "Some ex_mutation" ex_D StatusUnknown
        None "ex_acts_seen ex_D"] mc0
    by simp
  have b1: "MaybeCorrupt (fst (run_callbacks ex_externals ?cbs1 ex_acts))"
    by (simp add: ex_defs callback_defs Let_def)
  have b2: "MaybeCorrupt (fst (run_callbacks ex_externals (?cbs1 @ ?cbs2) ex_acts))"
    using T [THEN conjunct2, THEN conjunct1, of ex_externals ?cbs1 ex_acts ?cbs2] b1
    by blast
  have p: "plan ex_failing_engine ex_context ex_info ex_opts False
      = (Returned (Inr (Some ex_failing_result)), [])"
    by (simp add: ex_failing_engine_def ex_engine_def)
  have c: "Chdir ex_failing_result = (Returned None, [])"
    by (simp add: ex_failing_result_def)
  have w: "Walk ex_failing_result (newUpdateActions (Update_pc ex_info) ex_opts) =
    (Returned (Some PlanSummary, None),
     \<lparr>Steps = 1, Ops = [OpCreate \<mapsto> 1], Seen = [''D'' \<mapsto> ex_D, ''A'' \<mapsto> ex_A],
      MaybeCorrupt = True, Update_ua = ex_u, Opts = ex_opts\<rparr>,
     [resourcePreEvent ex_D False False, BeginMutationCall ex_D,
      Errorf ''D'' (Error ''unknown''),
      resourceOperationFailedEvent ex_D StatusUnknown 0 False, EndCall ex_D False,
      resourcePreEvent ex_A False False, BeginMutationCall ex_A,
      resourceOutputsEvent ex_A False False, EndCall ex_A True])"
    using ex_failing_walk by (simp add: ex_failing_result_def ex_info_def)
  have c3: "snd (update ex_failing_engine ex_context ex_info ex_opts False)
      = [preludeEvent False,
         resourcePreEvent ex_D False False, BeginMutationCall ex_D,
         Errorf ''D'' (Error ''unknown''),
         resourceOperationFailedEvent ex_D StatusUnknown 0 False, EndCall ex_D False,
         resourcePreEvent ex_A False False, BeginMutationCall ex_A,
         resourceOutputsEvent ex_A False False, EndCall ex_A True,
         updateSummaryEvent True [OpCreate \<mapsto> 1], ChdirDone, planResultIgnoreClose]"
    using T [THEN conjunct2, THEN conjunct2, rule_format, OF conjI [OF p conjI [OF c w]]]
    by simp
  show ?thesis
    using a1 a2 b1 b2 c3 by blast
qed

text \<open>
  C3 as stated fails when cancellation has been signaled: the provider error is not nil
  and the status is Unknown, and the flag is not set.
\<close>

theorem OnResourceStepPost_cancelled_not_corrupt:
  "\<not> (MaybeCorrupt (fst (snd (OnResourceStepPost ex_externals ex_cancelled (Some ex_mutation) ex_D
          StatusUnknown (Some (Error ''unknown'')) (ex_acts_seen ex_D))))
        \<longleftrightarrow> Some (Error ''unknown'') \<noteq> None \<and> StatusUnknown = StatusUnknown)"
proof -
  have "OnResourceStepPost ex_externals ex_cancelled (Some ex_mutation) ex_D StatusUnknown
      (Some (Error ''unknown'')) (ex_acts_seen ex_D) = (Returned None, ex_acts_seen ex_D, [])"
    using ex_acts_seen_registered [of ex_D]
    by (simp add: OnResourceStepPost_def assertSeen_Returned ex_cancelled_def)
  moreover have "\<not> MaybeCorrupt (ex_acts_seen ex_D)"
    by (simp add: ex_acts_seen_def OnResourceStepPre_MaybeCorrupt ex_acts_def newUpdateActions_def)
  ultimately show ?thesis by simp
qed

section \<open>update and Update\<close>

lemma update_deploy_walk:
  assumes "Walk result (newUpdateActions (Update_pc info) opts) = (Returned (summary, werr), actions, cs)"
  shows "fst (update_deploy e ctx info opts False result) =
    (if werr \<noteq> None \<and> summary = None then Returned (None, werr)
     else if summary = None then Panicked ''assertion failed''
     else Returned (Some (Ops actions), werr))"
  using assms by (simp add: update_deploy_def)

lemma Update_walk:
  assumes "newPlanContext e u = (Returned (Inr info), cs0)"
    and "plan e ctx info opts False = (Returned (Inr (Some result)), cs1)"
    and "Chdir result = (Returned None, cs2)"
  shows "fst (Update e (Some u) (Some ctx) opts False)
       = fst (update_deploy e ctx info opts False result)"
  using assms
  by (simp add: Update_def Update_deferred_def update_def update_chdir_def split: prod.splits)

text \<open>
  C7. For a non-dry-run update whose plan context, plan and change of directory succeed:
  if the walk returns an error and a nil summary, Update returns that error with a nil
  ResourceChanges; if the walk returns a summary, Update returns the Ops accumulated by the
  actions as ResourceChanges, with the walk's error, nil or not.
\<close>

theorem Update_returns_walk_changes:
  assumes "newPlanContext e u = (Returned (Inr info), cs0)"
    and "plan e ctx info opts False = (Returned (Inr (Some result)), cs1)"
    and "Chdir result = (Returned None, cs2)"
    and "Walk result (newUpdateActions (Update_pc info) opts)
           = (Returned (summary, werr), actions, cs3)"
  shows "(werr \<noteq> None \<and> summary = None \<longrightarrow>
            fst (Update e (Some u) (Some ctx) opts False) = Returned (None, werr))
       \<and> (summary \<noteq> None \<longrightarrow>
            fst (Update e (Some u) (Some ctx) opts False) = Returned (Some (Ops actions), werr))"
  using Update_walk [OF assms(1-3)] update_deploy_walk [OF assms(4), of e ctx]
  by auto

theorem Update_returns_walk_changes_witness:
  "fst (Update ex_walk_failing_engine (Some ex_u) (Some ex_context) ex_opts False)
     = Returned (None, Some (Error ''no source''))
   \<and> fst (Update ex_store_failing_engine (Some ex_u) (Some ex_context) ex_opts False)
     = Returned (Some [OpCreate \<mapsto> 1], Some (Error ''checkpoint not written''))"
proof -
  let ?r1 = "\<lparr>Chdir = (Returned None, []),
          Walk = (\<lambda>actions. (Returned (None, Some (Error ''no source'')), actions, []))\<rparr>"
  let ?r2 = "\<lparr>Chdir = (Returned None, []),
          Walk = walk_serial ex_externals ex_store_failing [(ex_A, StatusOK, None)]\<rparr>"
  have n1: "newPlanContext ex_walk_failing_engine ex_u = (Returned (Inr ex_info), [])"
    by (simp add: ex_walk_failing_engine_def ex_defs)
  have p1: "plan ex_walk_failing_engine ex_context ex_info ex_opts False
      = (Returned (Inr (Some ?r1)), [])"
    by (simp add: ex_walk_failing_engine_def ex_defs)
  have w1: "Walk ?r1 (newUpdateActions (Update_pc ex_info) ex_opts)
      = (Returned (None, Some (Error ''no source'')), newUpdateActions (Update_pc ex_info) ex_opts, [])"
    by simp
  have n2: "newPlanContext ex_store_failing_engine ex_u = (Returned (Inr ex_info), [])"
    by (simp add: ex_store_failing_engine_def ex_defs)
  have p2: "plan ex_store_failing_engine ex_context ex_info ex_opts False
      = (Returned (Inr (Some ?r2)), [])"
    by (simp add: ex_store_failing_engine_def ex_defs)
  have w2: "Walk ?r2 (newUpdateActions (Update_pc ex_info) ex_opts)
      = (Returned (Some PlanSummary, Some (Error ''checkpoint not written'')),
         \<lparr>Steps = 1, Ops = [OpCreate \<mapsto> 1], Seen = [''A'' \<mapsto> ex_A],
          MaybeCorrupt = False, Update_ua = ex_u, Opts = ex_opts\<rparr>,
         [resourcePreEvent ex_A False False, BeginMutationCall ex_A,
          resourceOutputsEvent ex_A False False, EndCall ex_A True])"
    by (simp add: ex_store_failing_def ex_defs callback_defs Let_def)
  have c: "Chdir ?r1 = (Returned None, [])" "Chdir ?r2 = (Returned None, [])"
    by simp_all
  show ?thesis
    using Update_returns_walk_changes [OF n1 p1 c(1) w1]
      Update_returns_walk_changes [OF n2 p2 c(2) w2]
    by simp
qed

lemma no_cancelEvent_filter: "cancelEvent \<notin> set cs \<Longrightarrow> filter is_cancelEvent cs = []"
proof (induction cs)
  case Nil
  show ?case by simp
next
  case (Cons c cs)
  then show ?case by (cases c) auto
qed

text \<open>
  No callback of the actions sends a cancel event, so the serial walk sends none.
\<close>

lemma OnResourceStepPre_cancel_free:
  "cancelEvent \<notin> set (snd (snd (OnResourceStepPre x cx step acts)))"
  by (auto simp: OnResourceStepPre_def OnResourceStepPre_report_def Let_def
      split: option.splits if_splits)

lemma OnResourceStepPost_cancel_free:
  "cancelEvent \<notin> set (snd (snd (OnResourceStepPost x cx ctx step status err acts)))"
  by (auto simp: OnResourceStepPost_def OnResourceStepPost_report_def Let_def
      split: option.splits if_splits result.splits)

lemma walk_serial_cancel_free:
  "cancelEvent \<notin> set (snd (snd (walk_serial x cx steps acts)))"
proof (induction steps arbitrary: acts)
  case Nil
  show ?case by simp
next
  case (Cons s steps)
  obtain step status err where s: "s = (step, status, err)"
    by (cases s) auto
  obtain r1 acts1 cs1 where pre: "OnResourceStepPre x cx step acts = (r1, acts1, cs1)"
    by (cases "OnResourceStepPre x cx step acts") auto
  have c1: "cancelEvent \<notin> set cs1"
    using OnResourceStepPre_cancel_free [of x cx step acts] pre by simp
  show ?case
  proof (cases r1)
    case (Panicked m)
    then show ?thesis using s pre c1 by simp
  next
    case (Returned mr)
    obtain mutation berr where mr: "mr = (mutation, berr)"
      by (cases mr) auto
    show ?thesis
    proof (cases berr)
      case (Some e)
      then show ?thesis using s pre c1 Returned mr by simp
    next
      case None
      obtain r2 acts2 cs2 where
        post: "OnResourceStepPost x cx mutation step status err acts1 = (r2, acts2, cs2)"
        by (cases "OnResourceStepPost x cx mutation step status err acts1") auto
      have c2: "cancelEvent \<notin> set cs2"
        using OnResourceStepPost_cancel_free [of x cx mutation step status err acts1] post
        by simp
      obtain r3 acts3 cs3 where rest: "walk_serial x cx steps acts2 = (r3, acts3, cs3)"
        by (cases "walk_serial x cx steps acts2") auto
      have c3: "cancelEvent \<notin> set cs3"
        using Cons.IH [of acts2] rest by simp
      show ?thesis
        using s pre Returned mr None post rest c1 c2 c3
        by (cases r2) (auto split: option.splits)
    qed
  qed
qed

text \<open>
  The body of Update sends no cancel event of its own: if the collaborators it calls send
  none, none is sent before the exit.
\<close>

lemma update_deploy_cancel_free:
  assumes "cancelEvent \<notin> set (snd (printPlan e ctx result dryRun))"
    and "cancelEvent \<notin> set (snd (snd (Walk result (newUpdateActions (Update_pc info) opts))))"
  shows "cancelEvent \<notin> set (snd (update_deploy e ctx info opts dryRun result))"
  using assms
  by (auto simp: update_deploy_def split: prod.splits result.splits option.splits if_splits)

lemma update_chdir_cancel_free:
  assumes "cancelEvent \<notin> set (snd (Chdir result))"
    and "cancelEvent \<notin> set (snd (printPlan e ctx result dryRun))"
    and "cancelEvent \<notin> set (snd (snd (Walk result (newUpdateActions (Update_pc info) opts))))"
  shows "cancelEvent \<notin> set (snd (update_chdir e ctx info opts dryRun result))"
  using assms(1) update_deploy_cancel_free [OF assms(2,3)]
  by (auto simp: update_chdir_def split: prod.splits result.splits option.splits)

lemma update_cancel_free:
  assumes "cancelEvent \<notin> set (snd (plan e ctx info opts dryRun))"
    and "\<And>result. fst (plan e ctx info opts dryRun) = Returned (Inr (Some result)) \<Longrightarrow>
           cancelEvent \<notin> set (snd (Chdir result))
           \<and> cancelEvent \<notin> set (snd (printPlan e ctx result dryRun))
           \<and> cancelEvent \<notin> set (snd (snd (Walk result (newUpdateActions (Update_pc info) opts))))"
  shows "cancelEvent \<notin> set (snd (update e ctx info opts dryRun))"
proof (cases "plan e ctx info opts dryRun")
  case (Pair r cs)
  have cs: "cancelEvent \<notin> set cs"
    using assms(1) Pair by simp
  show ?thesis
  proof (cases r)
    case (Panicked m)
    then show ?thesis using Pair cs by (simp add: update_def)
  next
    case (Returned v)
    show ?thesis
    proof (cases v)
      case (Inl err)
      then show ?thesis using Pair Returned cs by (simp add: update_def)
    next
      case (Inr ro)
      show ?thesis
      proof (cases ro)
        case None
        then show ?thesis using Pair Returned Inr cs by (simp add: update_def)
      next
        case (Some result)
        have "fst (plan e ctx info opts dryRun) = Returned (Inr (Some result))"
          using Pair Returned Inr Some by simp
        from assms(2) [OF this]
        have "cancelEvent \<notin> set (snd (update_chdir e ctx info opts dryRun result))"
          by (intro update_chdir_cancel_free) simp_all
        then show ?thesis
          using Pair Returned Inr Some cs by (auto simp: update_def split: prod.splits)
      qed
    qed
  qed
qed

lemma Update_deferred_cancel_free:
  assumes "cancelEvent \<notin> set (snd (newPlanContext e u))"
    and "\<And>info. fst (newPlanContext e u) = Returned (Inr info) \<Longrightarrow>
           cancelEvent \<notin> set (snd (plan e ctx info opts dryRun))"
    and "\<And>info result. fst (newPlanContext e u) = Returned (Inr info) \<Longrightarrow>
           fst (plan e ctx info opts dryRun) = Returned (Inr (Some result)) \<Longrightarrow>
           cancelEvent \<notin> set (snd (Chdir result))
           \<and> cancelEvent \<notin> set (snd (printPlan e ctx result dryRun))
           \<and> cancelEvent \<notin> set (snd (snd (Walk result (newUpdateActions (Update_pc info) opts))))"
  shows "cancelEvent \<notin> set (snd (Update_deferred e u ctx opts dryRun))"
proof (cases "newPlanContext e u")
  case (Pair r cs)
  have cs: "cancelEvent \<notin> set cs"
    using assms(1) Pair by simp
  show ?thesis
  proof (cases r)
    case (Panicked m)
    then show ?thesis using Pair cs by (simp add: Update_deferred_def)
  next
    case (Returned v)
    show ?thesis
    proof (cases v)
      case (Inl err)
      then show ?thesis using Pair Returned cs by (simp add: Update_deferred_def)
    next
      case (Inr info)
      have i: "fst (newPlanContext e u) = Returned (Inr info)"
        using Pair Returned Inr by simp
      have "cancelEvent \<notin> set (snd (update e ctx info opts dryRun))"
        using assms(2) [OF i] assms(3) [OF i] by (intro update_cancel_free) simp_all
      then show ?thesis
        using Pair Returned Inr cs by (auto simp: Update_deferred_def split: prod.splits)
    qed
  qed
qed

text \<open>
  C8, amended. A call to Update with a non-nil update and a non-nil context, whose
  collaborators (the creation of the plan context, plan, Chdir, printPlan and the walk)
  send no cancel event themselves, emits exactly one cancel event, as the last call on
  exit, whatever the outcome: return, error return or panic, also when the creation of the
  plan context fails or panics. A call with a nil update or a nil context panics at the
  precondition and emits nothing.
\<close>

theorem Update_emits_cancel_on_exit:
  assumes "cancelEvent \<notin> set (snd (newPlanContext e u))"
    and "\<And>info. fst (newPlanContext e u) = Returned (Inr info) \<Longrightarrow>
           cancelEvent \<notin> set (snd (plan e ctx info opts dryRun))"
    and "\<And>info result. fst (newPlanContext e u) = Returned (Inr info) \<Longrightarrow>
           fst (plan e ctx info opts dryRun) = Returned (Inr (Some result)) \<Longrightarrow>
           cancelEvent \<notin> set (snd (Chdir result))
           \<and> cancelEvent \<notin> set (snd (printPlan e ctx result dryRun))
           \<and> cancelEvent \<notin> set (snd (snd (Walk result (newUpdateActions (Update_pc info) opts))))"
  shows "filter is_cancelEvent (snd (Update e (Some u) (Some ctx) opts dryRun)) = [cancelEvent]
    \<and> last (snd (Update e (Some u) (Some ctx) opts dryRun)) = cancelEvent
    \<and> fst (Update e (Some u) (Some ctx) opts dryRun) = fst (Update_deferred e u ctx opts dryRun)
    \<and> Update e None octx opts dryRun = (Panicked ''update'', [])
    \<and> Update e (Some u) None opts dryRun = (Panicked ''ctx'', [])"
proof -
  have "cancelEvent \<notin> set (snd (Update_deferred e u ctx opts dryRun))"
    using assms by (rule Update_deferred_cancel_free)
  then have "filter is_cancelEvent (snd (Update_deferred e u ctx opts dryRun)) = []"
    by (rule no_cancelEvent_filter)
  then show ?thesis
    by (auto simp: Update_def split: prod.splits)
qed


lemma ex_scenario_walk:
  "walk_serial ex_externals ex_context ex_plan (newUpdateActions ex_u ex_opts) =
    (Returned (Some PlanSummary, None),
     \<lparr>Steps = 3, Ops = [OpCreate \<mapsto> 1, OpUpdate \<mapsto> 1, OpSame \<mapsto> 1],
      Seen = [''A'' \<mapsto> ex_A, ''B'' \<mapsto> ex_B, ''C'' \<mapsto> ex_C],
      MaybeCorrupt = False, Update_ua = ex_u, Opts = ex_opts\<rparr>,
     [resourcePreEvent ex_A False False, BeginMutationCall ex_A,
      resourceOutputsEvent ex_A False False, EndCall ex_A True,
      resourcePreEvent ex_B False False, BeginMutationCall ex_B,
      resourceOutputsEvent ex_B False False, EndCall ex_B True,
      resourcePreEvent ex_C False False, BeginMutationCall ex_C,
      resourceOutputsEvent ex_C False False, EndCall ex_C True])"
  by (simp add: ex_plan_def ex_defs callback_defs Let_def)

theorem Update_emits_cancel_on_exit_witness:
  "fst (Update ex_engine (Some ex_u) (Some ex_context) ex_opts False)
     = Returned (Some [OpCreate \<mapsto> 1, OpUpdate \<mapsto> 1, OpSame \<mapsto> 1], None)
   \<and> filter is_cancelEvent (snd (Update ex_engine (Some ex_u) (Some ex_context) ex_opts False))
     = [cancelEvent]
   \<and> last (snd (Update ex_engine (Some ex_u) (Some ex_context) ex_opts False)) = cancelEvent
   \<and> fst (Update ex_no_context_engine (Some ex_u) (Some ex_context) ex_opts False)
     = Returned (None, Some (Error ''no project''))
   \<and> filter is_cancelEvent
        (snd (Update ex_no_context_engine (Some ex_u) (Some ex_context) ex_opts False))
     = [cancelEvent]
   \<and> fst (Update ex_walk_panicking_engine (Some ex_u) (Some ex_context) ex_opts False)
     = Panicked ''walk''
   \<and> filter is_cancelEvent
        (snd (Update ex_walk_panicking_engine (Some ex_u) (Some ex_context) ex_opts False))
     = [cancelEvent]
   \<and> last (snd (Update ex_walk_panicking_engine (Some ex_u) (Some ex_context) ex_opts False))
     = cancelEvent"
proof -
  \<comment> \<open>the success path\<close>
  have a1: "cancelEvent \<notin> set (snd (newPlanContext ex_engine ex_u))"
    by (simp add: ex_engine_def)
  have a2: "\<And>info. fst (newPlanContext ex_engine ex_u) = Returned (Inr info) \<Longrightarrow>
      cancelEvent \<notin> set (snd (plan ex_engine ex_context info ex_opts False))"
    by (simp add: ex_engine_def)
  have a3: "\<And>info result. fst (newPlanContext ex_engine ex_u) = Returned (Inr info) \<Longrightarrow>
      fst (plan ex_engine ex_context info ex_opts False) = Returned (Inr (Some result)) \<Longrightarrow>
      cancelEvent \<notin> set (snd (Chdir result))
      \<and> cancelEvent \<notin> set (snd (printPlan ex_engine ex_context result False))
      \<and> cancelEvent \<notin> set (snd (snd (Walk result (newUpdateActions (Update_pc info) ex_opts))))"
    using walk_serial_cancel_free [of ex_externals ex_context ex_plan]
    by (auto simp: ex_engine_def ex_result_def)
  note A = Update_emits_cancel_on_exit [OF a1 a2 a3]
  have af: "fst (Update_deferred ex_engine ex_u ex_context ex_opts False)
      = Returned (Some [OpCreate \<mapsto> 1, OpUpdate \<mapsto> 1, OpSame \<mapsto> 1], None)"
    using ex_scenario_walk
    by (simp add: Update_deferred_def update_def update_chdir_def update_deploy_def
        ex_engine_def ex_result_def)
  \<comment> \<open>the plan context cannot be created\<close>
  have b1: "cancelEvent \<notin> set (snd (newPlanContext ex_no_context_engine ex_u))"
    by (simp add: ex_no_context_engine_def ex_engine_def)
  have b2: "\<And>info. fst (newPlanContext ex_no_context_engine ex_u) = Returned (Inr info) \<Longrightarrow>
      cancelEvent \<notin> set (snd (plan ex_no_context_engine ex_context info ex_opts False))"
    by (simp add: ex_no_context_engine_def ex_engine_def)
  have b3: "\<And>info result.
      fst (newPlanContext ex_no_context_engine ex_u) = Returned (Inr info) \<Longrightarrow>
      fst (plan ex_no_context_engine ex_context info ex_opts False)
        = Returned (Inr (Some result)) \<Longrightarrow>
      cancelEvent \<notin> set (snd (Chdir result))
      \<and> cancelEvent \<notin> set (snd (printPlan ex_no_context_engine ex_context result False))
      \<and> cancelEvent \<notin> set (snd (snd (Walk result (newUpdateActions (Update_pc info) ex_opts))))"
    by (simp add: ex_no_context_engine_def ex_engine_def)
  note B = Update_emits_cancel_on_exit [OF b1 b2 b3]
  have bf: "fst (Update_deferred ex_no_context_engine ex_u ex_context ex_opts False)
      = Returned (None, Some (Error ''no project''))"
    by (simp add: Update_deferred_def ex_no_context_engine_def ex_engine_def)
  \<comment> \<open>the walk panics\<close>
  have c1: "cancelEvent \<notin> set (snd (newPlanContext ex_walk_panicking_engine ex_u))"
    by (simp add: ex_walk_panicking_engine_def ex_engine_def)
  have c2: "\<And>info. fst (newPlanContext ex_walk_panicking_engine ex_u) = Returned (Inr info) \<Longrightarrow>
      cancelEvent \<notin> set (snd (plan ex_walk_panicking_engine ex_context info ex_opts False))"
    by (simp add: ex_walk_panicking_engine_def ex_engine_def)
  have c3: "\<And>info result.
      fst (newPlanContext ex_walk_panicking_engine ex_u) = Returned (Inr info) \<Longrightarrow>
      fst (plan ex_walk_panicking_engine ex_context info ex_opts False)
        = Returned (Inr (Some result)) \<Longrightarrow>
      cancelEvent \<notin> set (snd (Chdir result))
      \<and> cancelEvent \<notin> set (snd (printPlan ex_walk_panicking_engine ex_context result False))
      \<and> cancelEvent \<notin> set (snd (snd (Walk result (newUpdateActions (Update_pc info) ex_opts))))"
    by (auto simp: ex_walk_panicking_engine_def ex_engine_def)
  note C = Update_emits_cancel_on_exit [OF c1 c2 c3]
  have cf: "fst (Update_deferred ex_walk_panicking_engine ex_u ex_context ex_opts False)
      = Panicked ''walk''"
    by (simp add: Update_deferred_def update_def update_chdir_def update_deploy_def
        ex_walk_panicking_engine_def ex_engine_def)
  have r1: "fst (Update ex_engine (Some ex_u) (Some ex_context) ex_opts False)
     = Returned (Some [OpCreate \<mapsto> 1, OpUpdate \<mapsto> 1, OpSame \<mapsto> 1], None)"
    using A [THEN conjunct2, THEN conjunct2, THEN conjunct1] af by (rule trans)
  have r2: "fst (Update ex_no_context_engine (Some ex_u) (Some ex_context) ex_opts False)
     = Returned (None, Some (Error ''no project''))"
    using B [THEN conjunct2, THEN conjunct2, THEN conjunct1] bf by (rule trans)
  have r3: "fst (Update ex_walk_panicking_engine (Some ex_u) (Some ex_context) ex_opts False)
     = Panicked ''walk''"
    using C [THEN conjunct2, THEN conjunct2, THEN conjunct1] cf by (rule trans)
  show ?thesis
    using r1 A [THEN conjunct1] A [THEN conjunct2, THEN conjunct1]
      r2 B [THEN conjunct1]
      r3 C [THEN conjunct1] C [THEN conjunct2, THEN conjunct1]
    by (intro conjI)
qed

text \<open>
  C8 as stated fails when precondition validation fails: the panic comes before the
  cancel event is deferred, and no cancel event is emitted.
\<close>

theorem Update_nil_argument_no_cancel:
  "Update ex_engine None (Some ex_context) ex_opts False = (Panicked ''update'', [])
   \<and> filter is_cancelEvent (snd (Update ex_engine None (Some ex_context) ex_opts False)) = []
   \<and> Update ex_engine (Some ex_u) None ex_opts False = (Panicked ''ctx'', [])
   \<and> filter is_cancelEvent (snd (Update ex_engine (Some ex_u) None ex_opts False)) = []"
  by (simp add: Update_def)

section \<open>The scenario Create(A), Update(B), Same(C)\<close>

lemma OnResourceStepPre_no_warning:
  assumes "reportDefaultProviderSteps (Opts acts) \<or> \<not> isDefaultProviderStep x step"
    and "Op step \<noteq> OpSame \<or> (\<exists>old. Old step = Some old \<and> InitErrors old = [])"
  shows "OnResourceStepPre x cx step acts =
    (Returned (BeginMutation cx step), acts\<lparr>Seen := (Seen acts)(URN step \<mapsto> step)\<rparr>,
     [resourcePreEvent step False (Debug (Opts acts)), BeginMutationCall step])"
  using assms
  by (auto simp: OnResourceStepPre_def OnResourceStepPre_report_def reportStep_of_def Let_def)

lemma OnResourceStepPost_ok:
  assumes "Seen acts (URN step) \<noteq> None" and "TerminateErr cx = None"
    and "reportDefaultProviderSteps (Opts acts) \<or> \<not> isDefaultProviderStep x step"
    and "Logical step"
  shows "OnResourceStepPost x cx (Some m) step StatusOK None acts =
    (Returned (End m step True),
     acts\<lparr>Steps := Steps acts + 1,
          Ops := (Ops acts)(Op step \<mapsto> count_of (Ops acts) (Op step) + 1)\<rparr>,
     (if Custom (Res step) then [resourceOutputsEvent step False (Debug (Opts acts))] else [])
       @ [EndCall step True])"
  using assms
  by (simp add: OnResourceStepPost_run OnResourceStepPost_report_def reportStep_of_def Let_def)

lemma walk_serial_ok_step:
  assumes "reportDefaultProviderSteps (Opts acts) \<or> \<not> isDefaultProviderStep x step"
    and "Op step \<noteq> OpSame \<or> (\<exists>old. Old step = Some old \<and> InitErrors old = [])"
    and "Logical step"
    and "TerminateErr cx = None"
    and "BeginMutation cx step = (Some m, None)"
    and "End m step True = None"
  shows "walk_serial x cx ((step, StatusOK, None) # rest) acts =
    (case walk_serial x cx rest
            (acts\<lparr>Seen := (Seen acts)(URN step \<mapsto> step), Steps := Steps acts + 1,
                  Ops := (Ops acts)(Op step \<mapsto> count_of (Ops acts) (Op step) + 1)\<rparr>) of
       (r, acts3, cs3) \<Rightarrow> (r, acts3, ok_step_calls (Debug (Opts acts)) step @ cs3))"
proof -
  let ?acts1 = "acts\<lparr>Seen := (Seen acts)(URN step \<mapsto> step)\<rparr>"
  have pre: "OnResourceStepPre x cx step acts =
    (Returned (Some m, None), ?acts1,
     [resourcePreEvent step False (Debug (Opts acts)), BeginMutationCall step])"
    using OnResourceStepPre_no_warning [OF assms(1,2), of cx] assms(5) by simp
  have post: "OnResourceStepPost x cx (Some m) step StatusOK None ?acts1 =
    (Returned None,
     ?acts1\<lparr>Steps := Steps ?acts1 + 1,
          Ops := (Ops ?acts1)(Op step \<mapsto> count_of (Ops ?acts1) (Op step) + 1)\<rparr>,
     (if Custom (Res step) then [resourceOutputsEvent step False (Debug (Opts ?acts1))] else [])
       @ [EndCall step True])"
    using OnResourceStepPost_ok [of ?acts1 step cx x m] assms by simp
  show ?thesis
    by (simp add: pre post ok_step_calls_def split: prod.splits)
qed

lemma scenario_walk:
  assumes "Op A = OpCreate" and "Op B = OpUpdate" and "Op C = OpSame"
    and "Old C = Some oldC" and "InitErrors oldC = []"
    and "Logical A" and "Logical B" and "Logical C"
    and "reportDefaultProviderSteps opts \<or> \<not> isDefaultProviderStep x A"
    and "reportDefaultProviderSteps opts \<or> \<not> isDefaultProviderStep x B"
    and "reportDefaultProviderSteps opts \<or> \<not> isDefaultProviderStep x C"
    and "TerminateErr cx = None"
    and "BeginMutation cx A = (Some mA, None)" and "End mA A True = None"
    and "BeginMutation cx B = (Some mB, None)" and "End mB B True = None"
    and "BeginMutation cx C = (Some mC, None)" and "End mC C True = None"
  shows "walk_serial x cx [(A, StatusOK, None), (B, StatusOK, None), (C, StatusOK, None)]
           (newUpdateActions u opts) =
    (Returned (Some PlanSummary, None),
     \<lparr>Steps = 3, Ops = scenario_changes,
      Seen = [URN A \<mapsto> A, URN B \<mapsto> B, URN C \<mapsto> C],
      MaybeCorrupt = False, Update_ua = u, Opts = opts\<rparr>,
     ok_step_calls (Debug opts) A @ ok_step_calls (Debug opts) B @ ok_step_calls (Debug opts) C)"
proof -
  let ?a0 = "newUpdateActions u opts"
  let ?a1 = "?a0\<lparr>Seen := (Seen ?a0)(URN A \<mapsto> A), Steps := Steps ?a0 + 1,
                  Ops := (Ops ?a0)(Op A \<mapsto> count_of (Ops ?a0) (Op A) + 1)\<rparr>"
  let ?a2 = "?a1\<lparr>Seen := (Seen ?a1)(URN B \<mapsto> B), Steps := Steps ?a1 + 1,
                  Ops := (Ops ?a1)(Op B \<mapsto> count_of (Ops ?a1) (Op B) + 1)\<rparr>"
  let ?a3 = "?a2\<lparr>Seen := (Seen ?a2)(URN C \<mapsto> C), Steps := Steps ?a2 + 1,
                  Ops := (Ops ?a2)(Op C \<mapsto> count_of (Ops ?a2) (Op C) + 1)\<rparr>"
  have o: "Opts ?a0 = opts" "Opts ?a1 = opts" "Opts ?a2 = opts"
    by (simp_all add: newUpdateActions_def)
  have sA: "walk_serial x cx [(A, StatusOK, None), (B, StatusOK, None), (C, StatusOK, None)] ?a0 =
    (case walk_serial x cx [(B, StatusOK, None), (C, StatusOK, None)] ?a1 of
       (r, acts3, cs3) \<Rightarrow> (r, acts3, ok_step_calls (Debug opts) A @ cs3))"
    using walk_serial_ok_step [of ?a0 x A cx mA "[(B, StatusOK, None), (C, StatusOK, None)]"]
      assms o by simp
  have sB: "walk_serial x cx [(B, StatusOK, None), (C, StatusOK, None)] ?a1 =
    (case walk_serial x cx [(C, StatusOK, None)] ?a2 of
       (r, acts3, cs3) \<Rightarrow> (r, acts3, ok_step_calls (Debug opts) B @ cs3))"
    using walk_serial_ok_step [of ?a1 x B cx mB "[(C, StatusOK, None)]"] assms o by simp
  have sC: "walk_serial x cx [(C, StatusOK, None)] ?a2 =
    (case walk_serial x cx [] ?a3 of
       (r, acts3, cs3) \<Rightarrow> (r, acts3, ok_step_calls (Debug opts) C @ cs3))"
    using walk_serial_ok_step [of ?a2 x C cx mC "[]"] assms o by simp
  have fin: "?a3 = \<lparr>Steps = 3, Ops = scenario_changes,
      Seen = [URN A \<mapsto> A, URN B \<mapsto> B, URN C \<mapsto> C],
      MaybeCorrupt = False, Update_ua = u, Opts = opts\<rparr>"
    using assms(1-3) by (simp add: newUpdateActions_def count_of_def scenario_changes_def)
  have e: "walk_serial x cx [] ?a3 = (Returned (Some PlanSummary, None), ?a3, [])"
    by simp
  show ?thesis
    unfolding sA sB sC e prod.case fin by simp
qed

lemma filter_ok_step_calls:
  "filter is_Warningf (ok_step_calls debug step) = []"
  "filter is_EndCall (ok_step_calls debug step) = [EndCall step True]"
  by (simp_all add: ok_step_calls_def)

lemma HasChanges_scenario_changes:
  assumes "distinct ks" and "set ks = dom scenario_changes"
  shows "HasChanges ks scenario_changes"
proof -
  have "HasChanges_range ks scenario_changes 0
      = (\<Sum>op \<in> set ks - {OpSame}. count_of scenario_changes op)"
    using assms by (intro HasChanges_range_sum) simp_all
  also have "set ks - {OpSame} = {OpCreate, OpUpdate}"
    using assms(2) by (auto simp: scenario_changes_def)
  also have "(\<Sum>op \<in> {OpCreate, OpUpdate}. count_of scenario_changes op) = 2"
    by (simp add: scenario_changes_def count_of_def)
  finally show ?thesis
    by (simp add: HasChanges_def word_sless_alt)
qed


lemma OnResourceStepPre_warns_Same:
  assumes "reportDefaultProviderSteps (Opts acts) \<or> \<not> isDefaultProviderStep x step"
    and "Op step = OpSame" and "Old step = Some old" and "InitErrors old \<noteq> []"
  shows "OnResourceStepPre x cx step acts =
    (Returned (BeginMutation cx step), acts\<lparr>Seen := (Seen acts)(URN step \<mapsto> step)\<rparr>,
     [resourcePreEvent step False (Debug (Opts acts)),
      Warningf (URN step) (warning_text x (InitErrors old)),
      BeginMutationCall step])"
  using assms
  by (auto simp: OnResourceStepPre_def OnResourceStepPre_report_def reportStep_of_def Let_def)

lemma decimal_1_2: "decimal (Suc 0) = ''1''" "decimal (Suc (Suc 0)) = ''2''"
  by code_simp+

lemma warning_text_two_problems:
  "warning_text x [e1, e2] =
     ''This resource failed to initialize in a previous deployment. It is recommended\<newline>''
       @ indent @ ''to update it to fix these issues:\<newline>''
       @ SpecImportant x @ indent @ ''  - Problem #1'' @ Reset x @ '' '' @ e1 @ ''\<newline>''
       @ SpecImportant x @ indent @ ''  - Problem #2'' @ Reset x @ '' '' @ e2 @ ''\<newline>''"
  by (simp add: warning_text_def decimal_1_2 del: decimal.simps)

text \<open>
  C1, amended. In the serial three-step scenario Create(A), Update(B) where the old state
  of B has 2 recorded initialization errors, Same(C) with no initialization errors, the
  three steps being Logical and reportable, every provider returning (OK, nil) and every
  call on the snapshot store succeeding: no warning diagnostic is emitted (the warning is
  for Same steps whose old state has initialization errors, and B is an Update step),
  ResourceChanges equals {Create: 1, Update: 1, Same: 1}, HasChanges() is true for every
  iteration order, the corruption flag stays false and is reported as false, and three
  checkpoint commits are made in the order A, B, C, each with keep = true.
\<close>

theorem scenario_create_update_same:
  assumes "Op A = OpCreate" and "Op B = OpUpdate" and "Op C = OpSame"
    and "Old B = Some oldB" and "length (InitErrors oldB) = 2"
    and "Old C = Some oldC" and "InitErrors oldC = []"
    and "Logical A" and "Logical B" and "Logical C"
    and "reportDefaultProviderSteps opts \<or> \<not> isDefaultProviderStep x A"
    and "reportDefaultProviderSteps opts \<or> \<not> isDefaultProviderStep x B"
    and "reportDefaultProviderSteps opts \<or> \<not> isDefaultProviderStep x C"
    and "TerminateErr cx = None"
    and "BeginMutation cx A = (Some mA, None)" and "End mA A True = None"
    and "BeginMutation cx B = (Some mB, None)" and "End mB B True = None"
    and "BeginMutation cx C = (Some mC, None)" and "End mC C True = None"
    and "plan e cx info opts False = (Returned (Inr (Some result)), cs0)"
    and "Chdir result = (Returned None, cs1)"
    and "Walk result (newUpdateActions (Update_pc info) opts) = W"
    and "W = walk_serial x cx [(A, StatusOK, None), (B, StatusOK, None), (C, StatusOK, None)]
               (newUpdateActions (Update_pc info) opts)"
  shows "fst W = Returned (Some PlanSummary, None)
    \<and> Ops (fst (snd W)) = [OpCreate \<mapsto> 1, OpUpdate \<mapsto> 1, OpSame \<mapsto> 1]
    \<and> \<not> MaybeCorrupt (fst (snd W))
    \<and> filter is_Warningf (snd (snd W)) = []
    \<and> filter is_EndCall (snd (snd W)) = [EndCall A True, EndCall B True, EndCall C True]
    \<and> update e cx info opts False
        = (Returned (Some [OpCreate \<mapsto> 1, OpUpdate \<mapsto> 1, OpSame \<mapsto> 1], None),
           cs0 @ cs1 @ preludeEvent False # snd (snd W)
             @ [updateSummaryEvent False [OpCreate \<mapsto> 1, OpUpdate \<mapsto> 1, OpSame \<mapsto> 1],
                ChdirDone, planResultIgnoreClose])
    \<and> (\<forall>ks. distinct ks \<and> set ks = {OpCreate, OpUpdate, OpSame}
          \<longrightarrow> HasChanges ks [OpCreate \<mapsto> 1, OpUpdate \<mapsto> 1, OpSame \<mapsto> 1])"
proof -
  let ?acts = "\<lparr>Steps = 3, Ops = scenario_changes,
      Seen = [URN A \<mapsto> A, URN B \<mapsto> B, URN C \<mapsto> C],
      MaybeCorrupt = False, Update_ua = Update_pc info, Opts = opts\<rparr>"
  let ?cs = "ok_step_calls (Debug opts) A @ ok_step_calls (Debug opts) B
      @ ok_step_calls (Debug opts) C"
  have W: "W = (Returned (Some PlanSummary, None), ?acts, ?cs)"
    unfolding assms(24)
    by (rule scenario_walk [OF assms(1-3) assms(6-20)])
  have walk: "Walk result (newUpdateActions (Update_pc info) opts)
      = (Returned (Some PlanSummary, None), ?acts, ?cs)"
    using assms(23) W by simp
  have u: "update e cx info opts False
      = (Returned (Some (Ops ?acts), None),
         cs0 @ cs1 @ preludeEvent False # ?cs
           @ [updateSummaryEvent (MaybeCorrupt ?acts) (Ops ?acts), ChdirDone,
              planResultIgnoreClose])"
    by (rule update_summary [OF assms(21) assms(22) walk])
  have d: "dom scenario_changes = {OpCreate, OpUpdate, OpSame}"
    by (auto simp: scenario_changes_def)
  have h: "\<forall>ks. distinct ks \<and> set ks = {OpCreate, OpUpdate, OpSame}
          \<longrightarrow> HasChanges ks scenario_changes"
    using HasChanges_scenario_changes d by simp
  show ?thesis
    using u h unfolding W
    by (simp add: filter_ok_step_calls scenario_changes_def)
qed

theorem scenario_create_update_same_witness:
  "fst (update ex_engine ex_context ex_info ex_opts False)
     = Returned (Some [OpCreate \<mapsto> 1, OpUpdate \<mapsto> 1, OpSame \<mapsto> 1], None)
   \<and> filter is_EndCall (snd (update ex_engine ex_context ex_info ex_opts False))
     = [EndCall ex_A True, EndCall ex_B True, EndCall ex_C True]
   \<and> filter is_Warningf (snd (update ex_engine ex_context ex_info ex_opts False)) = []
   \<and> HasChanges [OpSame, OpUpdate, OpCreate] [OpCreate \<mapsto> 1, OpUpdate \<mapsto> 1, OpSame \<mapsto> 1]"
proof -
  let ?W = "walk_serial ex_externals ex_context
      [(ex_A, StatusOK, None), (ex_B, StatusOK, None), (ex_C, StatusOK, None)]
      (newUpdateActions (Update_pc ex_info) ex_opts)"
  have ops: "Op ex_A = OpCreate" "Op ex_B = OpUpdate" "Op ex_C = OpSame"
    by (simp_all add: ex_defs)
  have oldB: "Old ex_B = Some \<lparr>Custom = True, InitErrors = [''first'', ''second'']\<rparr>"
    "length (InitErrors \<lparr>Custom = True, InitErrors = [''first'', ''second'']\<rparr>) = 2"
    by (simp_all add: ex_defs)
  have oldC: "Old ex_C = Some ex_state" "InitErrors ex_state = []"
    by (simp_all add: ex_defs)
  have logical: "Logical ex_A" "Logical ex_B" "Logical ex_C"
    by (simp_all add: ex_defs)
  have rep: "reportDefaultProviderSteps ex_opts \<or> \<not> isDefaultProviderStep ex_externals ex_A"
    "reportDefaultProviderSteps ex_opts \<or> \<not> isDefaultProviderStep ex_externals ex_B"
    "reportDefaultProviderSteps ex_opts \<or> \<not> isDefaultProviderStep ex_externals ex_C"
    by (simp_all add: ex_defs)
  have store: "BeginMutation ex_context ex_A = (Some ex_mutation, None)"
    "End ex_mutation ex_A True = None"
    "BeginMutation ex_context ex_B = (Some ex_mutation, None)"
    "End ex_mutation ex_B True = None"
    "BeginMutation ex_context ex_C = (Some ex_mutation, None)"
    "End ex_mutation ex_C True = None"
    by (simp_all add: ex_context_def ex_mutation_def)
  have p: "plan ex_engine ex_context ex_info ex_opts False = (Returned (Inr (Some ex_result)), [])"
    by (simp add: ex_engine_def)
  have c: "Chdir ex_result = (Returned None, [])"
    by (simp add: ex_result_def)
  have w: "Walk ex_result (newUpdateActions (Update_pc ex_info) ex_opts) = ?W"
    by (simp add: ex_result_def ex_plan_def)
  note T = scenario_create_update_same [OF ops oldB oldC logical rep TerminateErr_ex_context
      store p c w refl]
  have k: "distinct [OpSame, OpUpdate, OpCreate]
      \<and> set [OpSame, OpUpdate, OpCreate] = {OpCreate, OpUpdate, OpSame}"
    by auto
  show ?thesis
    using T k by (simp del: walk_serial.simps)
qed

text \<open>
  C1 as stated fails: B is an Update step whose old state has two initialization errors,
  and neither its pre-notification nor the walk of the scenario emits a warning.
\<close>

theorem scenario_no_warning_for_Update:
  "Op ex_B = OpUpdate
   \<and> Old ex_B = Some \<lparr>Custom = True, InitErrors = [''first'', ''second'']\<rparr>
   \<and> snd (snd (OnResourceStepPre ex_externals ex_context ex_B (ex_acts_seen ex_A)))
     = [resourcePreEvent ex_B False False, BeginMutationCall ex_B]
   \<and> filter is_Warningf
       (snd (snd (walk_serial ex_externals ex_context ex_plan (newUpdateActions ex_u ex_opts))))
     = []"
  by (simp add: ex_plan_def ex_defs callback_defs ex_acts_seen_def Let_def)

end
